theory Spec2Isabelle
  imports
    Main
    "HOL-Library.AList"
    "HOL-Library.Char_ord"
    "HOL-Library.List_Lexorder"
    "HOL-Library.Multiset"
    "HOL-Library.Signed_Division"
    "HOL-Library.Sublist"
    "HOL-Library.Word"
begin

chapter \<open>The model\<close>

text \<open>
  The packages of the repository, each function under the name the source gives it.
  Where two packages use one name (a field \<^verbatim>\<open>servers\<close>, a field \<^verbatim>\<open>method\<close>), or
  a name is taken by HOL, the later one carries a suffix. A Go \<^verbatim>\<open>error\<close> is its
  message; a function that returns \<^verbatim>\<open>(x, error)\<close> returns a pair whose second
  component is \<open>None\<close> for \<^verbatim>\<open>nil\<close>, or a \<open>result\<close>, which also has the run-time
  panic as an outcome.
\<close>

datatype 'a result = Ok 'a | Err string | Panic string

text \<open>
  Instants and durations are Go's \<^verbatim>\<open>time.Time\<close> and \<^verbatim>\<open>time.Duration\<close>, both
  counted in nanoseconds on one clock, as unbounded integers. \<^verbatim>\<open>t.Add(d)\<close> is
  addition and \<^verbatim>\<open>t.After(u)\<close> is the strict comparison \<open>u < t\<close>. How a duration
  prints under \<^verbatim>\<open>%s\<close> is left to a parameter \<open>fmtD\<close> of the functions that
  print one.
\<close>

type_synonym Time = int
type_synonym Duration = int

definition Add :: "Time \<Rightarrow> Duration \<Rightarrow> Time" where
  "Add t d = t + d"

definition After :: "Time \<Rightarrow> Time \<Rightarrow> bool" where
  "After t u = (u < t)"

definition Second :: Duration where
  "Second = 1000000000"

definition Minute :: Duration where
  "Minute = 60 * Second"

section \<open>The codec contract (package codec)\<close>

record Header =
  ServiceMethod :: string
  Seq :: "64 word"
  Error :: string

type_synonym Type = string

definition GobType :: Type where
  "GobType = ''application/gob''"

definition JsonType :: Type where
  "JsonType = ''application/json''"

text \<open>
  A \<^verbatim>\<open>NewCodecFunc\<close> is a constructor of codecs. The table holds the one entry that
  \<^verbatim>\<open>init\<close> stores; the body of the gob constructor is not part of the sources and
  no claim depends on it, so the constructor is a name.
\<close>

datatype NewCodecFunc = NewGobCodec

definition NewCodecFuncMap :: "Type \<rightharpoonup> NewCodecFunc" where
  "NewCodecFuncMap = [GobType \<mapsto> NewGobCodec]"

section \<open>Run-time reflection, as far as the service table uses it\<close>

text \<open>
  Go's \<^verbatim>\<open>reflect.Type\<close>: the predeclared types \<^verbatim>\<open>bool\<close>, \<^verbatim>\<open>int\<close>, \<^verbatim>\<open>uint64\<close>,
  \<^verbatim>\<open>string\<close> and \<^verbatim>\<open>error\<close>, a defined type with its package path, name and
  underlying type, and the composite types. A \<^verbatim>\<open>reflect.Value\<close> is a type together
  with a value of the shape below.
\<close>

datatype Kind =
  Bool_k | Int_k | Uint64_k | String_k | Array_k | Chan_k | Func_k | Interface_k
  | Map_k | Ptr_k | Slice_k | Struct_k

datatype GoType =
    BoolT
  | IntT
  | Uint64T
  | StringT
  | ErrorT
  | Named string string GoType
  | PtrTo GoType
  | SliceOf GoType
  | ArrayOf nat GoType
  | ChanOf GoType
  | MapOf GoType GoType
  | StructOf "(string \<times> GoType) list"
  | FuncOf "GoType list" "GoType list"

fun Kind_of :: "GoType \<Rightarrow> Kind" where
  "Kind_of BoolT = Bool_k"
| "Kind_of IntT = Int_k"
| "Kind_of Uint64T = Uint64_k"
| "Kind_of StringT = String_k"
| "Kind_of ErrorT = Interface_k"
| "Kind_of (Named p n u) = Kind_of u"
| "Kind_of (PtrTo t) = Ptr_k"
| "Kind_of (SliceOf t) = Slice_k"
| "Kind_of (ArrayOf n t) = Array_k"
| "Kind_of (ChanOf t) = Chan_k"
| "Kind_of (MapOf k v) = Map_k"
| "Kind_of (StructOf fs) = Struct_k"
| "Kind_of (FuncOf ins outs) = Func_k"

fun Name :: "GoType \<Rightarrow> string" where
  "Name BoolT = ''bool''"
| "Name IntT = ''int''"
| "Name Uint64T = ''uint64''"
| "Name StringT = ''string''"
| "Name ErrorT = ''error''"
| "Name (Named p n u) = n"
| "Name t = []"

fun PkgPath :: "GoType \<Rightarrow> string" where
  "PkgPath (Named p n u) = p"
| "PkgPath t = []"

text \<open>\<^verbatim>\<open>Type.Elem\<close> panics unless the kind is Array, Chan, Map, Pointer or Slice.\<close>

fun Elem :: "GoType \<Rightarrow> GoType result" where
  "Elem (Named p n u) = Elem u"
| "Elem (PtrTo t) = Ok t"
| "Elem (SliceOf t) = Ok t"
| "Elem (ArrayOf n t) = Ok t"
| "Elem (ChanOf t) = Ok t"
| "Elem (MapOf k v) = Ok v"
| "Elem t = Panic ''reflect: Elem of invalid type''"

datatype Value =
    BoolV bool
  | IntV int
  | StringV string
  | StructV "(string \<times> Value) list"
  | ArrayV "Value list"
  | SliceV "Value list option"
  | MapV "(Value \<times> Value) list option"
  | PtrV "Value option"
  | NilV

text \<open>The zero value of a type; \<open>PtrV None\<close>, \<open>SliceV None\<close> and \<open>MapV None\<close> are nil.\<close>

fun Zero :: "GoType \<Rightarrow> Value" where
  "Zero BoolT = BoolV False"
| "Zero IntT = IntV 0"
| "Zero Uint64T = IntV 0"
| "Zero StringT = StringV []"
| "Zero ErrorT = NilV"
| "Zero (Named p n u) = Zero u"
| "Zero (PtrTo t) = PtrV None"
| "Zero (SliceOf t) = SliceV None"
| "Zero (ArrayOf n t) = ArrayV (replicate n (Zero t))"
| "Zero (ChanOf t) = NilV"
| "Zero (MapOf k v) = MapV None"
| "Zero (StructOf fs) = StructV (map (\<lambda>f. (fst f, Zero (snd f))) fs)"
| "Zero (FuncOf ins outs) = NilV"

type_synonym RValue = "GoType \<times> Value"

text \<open>\<^verbatim>\<open>reflect.New(t)\<close>: a pointer to a fresh zero value of \<open>t\<close>.\<close>

definition New_r :: "GoType \<Rightarrow> RValue" where
  "New_r t = (PtrTo t, PtrV (Some (Zero t)))"

text \<open>
  \<^verbatim>\<open>ast.IsExported\<close> decodes the first rune of the name and asks
  \<^verbatim>\<open>unicode.IsUpper\<close> of it. A string is its UTF-8 bytes: a first byte below 128
  is the rune itself, an upper-case letter exactly from \<^verbatim>\<open>A\<close> to \<^verbatim>\<open>Z\<close>. For
  a name that starts with any other byte the answer of \<^verbatim>\<open>unicode.IsUpper\<close> on its
  first rune is the parameter \<open>upper\<close>, which the functions that register a service
  pass on; Go's table of upper-case letters is not copied here.
\<close>

definition isUpper :: "char \<Rightarrow> bool" where
  "isUpper c = (65 \<le> (of_char c :: nat) \<and> (of_char c :: nat) \<le> 90)"

definition IsExported :: "(string \<Rightarrow> bool) \<Rightarrow> string \<Rightarrow> bool" where
  "IsExported upper n =
     (case n of
        [] \<Rightarrow> False
      | c # cs \<Rightarrow> if (of_char c :: nat) < 128 then isUpper c else upper n)"

text \<open>The predeclared interface type \<^verbatim>\<open>error\<close>.\<close>

definition errorType :: GoType where
  "errorType = ErrorT"

text \<open>
  \<^verbatim>\<open>reflect.Method\<close>: its name, the inputs of its function type (the receiver
  first) and the outputs. \<open>Func_m\<close> stands for \<^verbatim>\<open>Func.Call\<close> on receiver, argument
  and reply carrier: it gives the reply carrier as the method leaves it and the
  error the method returns.
\<close>

record Method =
  Name_m :: string
  In_m :: "GoType list"
  Out_m :: "GoType list"
  Func_m :: "Value \<Rightarrow> Value \<Rightarrow> Value \<Rightarrow> Value \<times> string option"

section \<open>The service table (package gpmd, service)\<close>

record methodType =
  method_t :: Method
  ArgType :: GoType
  ReplyType :: GoType
  numCalls :: "64 word"

definition NumCalls :: "methodType \<Rightarrow> 64 word" where
  "NumCalls m = numCalls m"

definition newArgv :: "methodType \<Rightarrow> RValue result" where
  "newArgv m =
     (if Kind_of (ArgType m) = Ptr_k then
        (case Elem (ArgType m) of
           Ok t \<Rightarrow> Ok (New_r t)
         | Err e \<Rightarrow> Err e
         | Panic p \<Rightarrow> Panic p)
      else Ok (ArgType m, Zero (ArgType m)))"

definition newReply :: "methodType \<Rightarrow> RValue result" where
  "newReply m =
     (case Elem (ReplyType m) of
        Panic p \<Rightarrow> Panic p
      | Err e \<Rightarrow> Err e
      | Ok t \<Rightarrow>
          (if Kind_of t = Map_k then Ok (PtrTo t, PtrV (Some (MapV (Some []))))
           else if Kind_of t = Slice_k then Ok (PtrTo t, PtrV (Some (SliceV (Some []))))
           else Ok (New_r t)))"

record service =
  name_s :: string
  typ_s :: GoType
  rcvr_s :: Value
  method_s :: "string \<rightharpoonup> methodType"

definition isExportedOrBuiltinType :: "(string \<Rightarrow> bool) \<Rightarrow> GoType \<Rightarrow> bool" where
  "isExportedOrBuiltinType upper t = (IsExported upper (Name t) \<or> PkgPath t = [])"

text \<open>
  The loop of \<^verbatim>\<open>registerMethod\<close> over the methods that reflection lists for the
  receiver's type, with the table built so far.
\<close>

fun registerLoop ::
  "(string \<Rightarrow> bool) \<Rightarrow> Method list \<Rightarrow> (string \<rightharpoonup> methodType) \<Rightarrow> (string \<rightharpoonup> methodType)"
where
  "registerLoop upper [] tab = tab"
| "registerLoop upper (m # ms) tab =
     (if length (In_m m) \<noteq> 3 \<or> length (Out_m m) \<noteq> 1 then registerLoop upper ms tab
      else if Out_m m ! 0 \<noteq> errorType then registerLoop upper ms tab
      else
        (let argType = In_m m ! 1; replyType = In_m m ! 2 in
         if \<not> isExportedOrBuiltinType upper argType \<or> \<not> isExportedOrBuiltinType upper replyType
         then registerLoop upper ms tab
         else registerLoop upper ms
           (tab(Name_m m \<mapsto> \<lparr>method_t = m, ArgType = argType, ReplyType = replyType, numCalls = 0\<rparr>))))"

definition registerMethod :: "(string \<Rightarrow> bool) \<Rightarrow> service \<Rightarrow> Method list \<Rightarrow> service" where
  "registerMethod upper s ms = s\<lparr>method_s := registerLoop upper ms Map.empty\<rparr>"

text \<open>
  What reflection reports of the object handed to \<^verbatim>\<open>Register\<close>: its type, its
  value and the exported methods of its method set. \<^verbatim>\<open>log.Fatalf\<close> ends the
  process; it is the outcome \<open>Err\<close> here.
\<close>

record Receiver =
  rtype :: GoType
  rvalue :: Value
  rmethods :: "Method list"

definition Indirect_type :: "GoType \<Rightarrow> GoType result" where
  "Indirect_type t = (if Kind_of t = Ptr_k then Elem t else Ok t)"

definition newService :: "(string \<Rightarrow> bool) \<Rightarrow> Receiver \<Rightarrow> service result" where
  "newService upper rc =
     (case Indirect_type (rtype rc) of
        Panic p \<Rightarrow> Panic p
      | Err e \<Rightarrow> Err e
      | Ok t \<Rightarrow>
          (if \<not> IsExported upper (Name t)
           then Err (''rpc server:'' @ Name t @ '' is not a valid service name'')
           else Ok (registerMethod upper
                      \<lparr>name_s = Name t, typ_s = rtype rc, rcvr_s = rvalue rc, method_s = Map.empty\<rparr>
                      (rmethods rc))))"

text \<open>
  \<^verbatim>\<open>call\<close>: the counter goes up by one (an atomic add on an unsigned 64-bit word),
  the method runs, and its error comes back. The method type is the object the
  service's table points to; it is returned as the call leaves it.
\<close>

definition call :: "service \<Rightarrow> methodType \<Rightarrow> RValue \<Rightarrow> RValue \<Rightarrow> string option \<times> RValue \<times> methodType" where
  "call s m argv replyv =
     (case Func_m (method_t m) (rcvr_s s) (snd argv) (snd replyv) of
        (rv, err) \<Rightarrow> (err, (fst replyv, rv), m\<lparr>numCalls := numCalls m + 1\<rparr>))"

section \<open>The server (package gpmd, server)\<close>

definition MagicNumber :: int where
  "MagicNumber = 0x1234567"

record Option =
  MagicNumber_o :: int
  CodeType :: Type
  ConnectTimeout :: Duration
  HandleTimeout :: Duration

text \<open>
  \<^verbatim>\<open>var DefaultOption = &Option{...}\<close> is a pointer held by a package variable.
  Options live in a heap of \<open>Option\<close> cells; the variable holds the address
  \<open>DefaultOption\<close>, and \<open>DefaultOption_value\<close> is the record its cell is initialised
  with.
\<close>

type_synonym addr = nat
type_synonym heap = "addr \<Rightarrow> Option"

definition DefaultOption :: addr where
  "DefaultOption = 0"

definition DefaultOption_value :: Option where
  "DefaultOption_value =
     \<lparr>MagicNumber_o = MagicNumber, CodeType = GobType,
      ConnectTimeout = 10 * Second, HandleTimeout = 0\<rparr>"

record Server =
  serviceMap :: "string \<rightharpoonup> service"

definition NewServer :: Server where
  "NewServer = \<lparr>serviceMap = Map.empty\<rparr>"

text \<open>
  \<^verbatim>\<open>ServeConn\<close> up to its call of \<^verbatim>\<open>serveCodec\<close>. The argument is what the JSON
  decoder makes of the start of the stream: an error, or the \<open>Option\<close> the peer
  encoded. The connection is closed on every path; a rejected handshake says why.
\<close>

datatype reject = OptionsError string | MagicMismatch | UnknownCodec

definition ServeConn :: "string + Option \<Rightarrow> reject + NewCodecFunc \<times> Option" where
  "ServeConn dec =
     (case dec of
        Inl e \<Rightarrow> Inl (OptionsError e)
      | Inr opt \<Rightarrow>
          (if MagicNumber_o opt \<noteq> MagicNumber then Inl MagicMismatch
           else (case NewCodecFuncMap (CodeType opt) of
                   None \<Rightarrow> Inl UnknownCodec
                 | Some f \<Rightarrow> Inr (f, opt))))"

text \<open>\<^verbatim>\<open>invalidRequest = struct{}{}\<close>, the body of every response that reports an error.\<close>

definition invalidRequest :: Value where
  "invalidRequest = StructV []"

record request =
  h_q :: Header
  argv_q :: "RValue option"
  replyv_q :: "RValue option"
  mType_q :: "methodType option"
  svc_q :: "service option"

text \<open>
  \<^verbatim>\<open>strings.LastIndex\<close>: the index of the last place where \<open>sep\<close> starts in \<open>s\<close>,
  or \<open>-1\<close>.
\<close>

definition LastIndex :: "string \<Rightarrow> string \<Rightarrow> int" where
  "LastIndex s sep =
     (case filter (\<lambda>i. take (length sep) (drop i s) = sep) (rev [0..<Suc (length s - length sep)]) of
        [] \<Rightarrow> - 1
      | i # _ \<Rightarrow> int i)"

text \<open>
  \<^verbatim>\<open>findService\<close> returns its three named results; \<open>None\<close> is \<^verbatim>\<open>nil\<close>.
\<close>

definition findService ::
  "Server \<Rightarrow> string \<Rightarrow> service option \<times> methodType option \<times> string option" where
  "findService s serviceMethod =
     (let dot = LastIndex serviceMethod ''.'' in
      if dot < 0 then
        (None, None, Some (''rpc server: service/method request ill-formed:'' @ serviceMethod))
      else
        (let serviceName = take (nat dot) serviceMethod;
             methodName = drop (nat (dot + 1)) serviceMethod in
         case serviceMap s serviceName of
           None \<Rightarrow> (None, None, Some (''rpc server: can't find service'' @ serviceName))
         | Some svc \<Rightarrow>
             (case method_s svc methodName of
                None \<Rightarrow> (Some svc, None, Some (''rpc server: can't find method '' @ methodName))
              | Some mType \<Rightarrow> (Some svc, Some mType, None))))"

text \<open>
  The codec is the environment of the server: \<^verbatim>\<open>ReadHeader\<close> yields an error or a
  header, \<^verbatim>\<open>ReadBody\<close> an error or the decoded argument.
\<close>

definition readRequestHeader :: "string + Header \<Rightarrow> Header option \<times> string option" where
  "readRequestHeader rh = (case rh of Inl e \<Rightarrow> (None, Some e) | Inr h \<Rightarrow> (Some h, None))"

text \<open>
  \<^verbatim>\<open>readRequest\<close>. The body is decoded through a pointer to the argument carrier:
  into the pointee when the carrier is a pointer, into the carrier itself when it
  is not. A panic of \<^verbatim>\<open>newReply\<close> leaves the function as a panic.
\<close>

definition decodeInto :: "RValue \<Rightarrow> Value \<Rightarrow> RValue" where
  "decodeInto argv v =
     (if Kind_of (fst argv) \<noteq> Ptr_k then (fst argv, v) else (fst argv, PtrV (Some v)))"

definition readRequest ::
  "Server \<Rightarrow> string + Header \<Rightarrow> string + Value \<Rightarrow> (request option \<times> string option) result" where
  "readRequest s rh rb =
     (case readRequestHeader rh of
        (None, err) \<Rightarrow> Ok (None, err)
      | (Some h, Some e) \<Rightarrow> Ok (None, Some e)
      | (Some h, None) \<Rightarrow>
          (case findService s (ServiceMethod h) of
             (svc, mType, Some e) \<Rightarrow>
               Ok (Some \<lparr>h_q = h, argv_q = None, replyv_q = None, mType_q = mType, svc_q = svc\<rparr>, Some e)
           | (svc, None, None) \<Rightarrow> Panic ''invalid memory address or nil pointer dereference''
           | (svc, Some m, None) \<Rightarrow>
               (case newArgv m of
                  Panic p \<Rightarrow> Panic p
                | Err e \<Rightarrow> Err e
                | Ok argv \<Rightarrow>
                    (case newReply m of
                       Panic p \<Rightarrow> Panic p
                     | Err e \<Rightarrow> Err e
                     | Ok replyv \<Rightarrow>
                         (case rb of
                            Inl e \<Rightarrow>
                              Ok (Some \<lparr>h_q = h, argv_q = Some argv, replyv_q = Some replyv,
                                        mType_q = Some m, svc_q = svc\<rparr>, Some e)
                          | Inr v \<Rightarrow>
                              Ok (Some \<lparr>h_q = h, argv_q = Some (decodeInto argv v),
                                        replyv_q = Some replyv, mType_q = Some m, svc_q = svc\<rparr>,
                                  None))))))"

text \<open>
  \<^verbatim>\<open>sendResponse\<close> hands one frame to the codec under the sending mutex; \<open>wire\<close>
  is the list of frames handed over so far. A failed write is logged and changes
  nothing else.
\<close>

type_synonym wire = "(Header \<times> Value) list"

definition sendResponse :: "wire \<Rightarrow> Header \<Rightarrow> Value \<Rightarrow> wire" where
  "sendResponse cc h body = cc @ [(h, body)]"

text \<open>
  One turn of the loop of \<^verbatim>\<open>serveCodec\<close>: the loop ends, or answers the request
  itself and goes on, or starts \<^verbatim>\<open>handleRequest\<close> on the request.
\<close>

datatype turn = Break | Continue wire | Dispatch request

definition serveCodec_turn ::
  "Server \<Rightarrow> wire \<Rightarrow> string + Header \<Rightarrow> string + Value \<Rightarrow> turn result" where
  "serveCodec_turn s cc rh rb =
     (case readRequest s rh rb of
        Panic p \<Rightarrow> Panic p
      | Err e \<Rightarrow> Err e
      | Ok (None, Some e) \<Rightarrow> Ok Break
      | Ok (Some req, Some e) \<Rightarrow> Ok (Continue (sendResponse cc ((h_q req)\<lparr>Error := e\<rparr>) invalidRequest))
      | Ok (None, None) \<Rightarrow> Panic ''invalid memory address or nil pointer dereference''
      | Ok (Some req, None) \<Rightarrow> Ok (Dispatch req))"

text \<open>
  \<^verbatim>\<open>handleRequest\<close> runs two goroutines that meet on the unbuffered channels
  \<^verbatim>\<open>called\<close> and \<^verbatim>\<open>sent\<close>. The state holds the place each of them is at, the
  request they share, and the frames written. The worker is the function literal:
  about to call the method; blocked sending on \<^verbatim>\<open>called\<close> with the error the call
  returned; inside \<^verbatim>\<open>if err != nil\<close>, about to write the error response; blocked
  sending on \<^verbatim>\<open>sent\<close>; returned. The handler is the body of \<^verbatim>\<open>handleRequest\<close>:
  waiting to receive from \<^verbatim>\<open>called\<close> (directly, or in the \<^verbatim>\<open>select\<close> beside the
  timer); waiting to receive from \<^verbatim>\<open>sent\<close>; in the timer's case of the
  \<^verbatim>\<open>select\<close>; returned, with \<^verbatim>\<open>wg.Done\<close> run.
\<close>

datatype worker = W_call | W_called "string option" | W_error string | W_sent | W_return

datatype handler = H_called | H_sent | H_timer | H_return

record hstate =
  worker_h :: worker
  handler_h :: handler
  req_h :: request
  wire_h :: wire

definition handleRequest_init :: "wire \<Rightarrow> request \<Rightarrow> hstate" where
  "handleRequest_init cc req = \<lparr>worker_h = W_call, handler_h = H_called, req_h = req, wire_h = cc\<rparr>"

definition timeoutText :: "(Duration \<Rightarrow> string) \<Rightarrow> Duration \<Rightarrow> string" where
  "timeoutText fmtD d = ''rpc server: request handle timeout: expect within '' @ fmtD d"

inductive handleRequest :: "(Duration \<Rightarrow> string) \<Rightarrow> Duration \<Rightarrow> hstate \<Rightarrow> hstate \<Rightarrow> bool"
  for fmtD :: "Duration \<Rightarrow> string" and timeout :: Duration
where
  worker_call:
    "\<lbrakk>worker_h s = W_call; svc_q (req_h s) = Some svc; mType_q (req_h s) = Some m;
      argv_q (req_h s) = Some argv; replyv_q (req_h s) = Some replyv;
      call svc m argv replyv = (err, replyv', m')\<rbrakk>
     \<Longrightarrow> handleRequest fmtD timeout s
           (s\<lparr>worker_h := W_called err,
              req_h := (req_h s)\<lparr>replyv_q := Some replyv', mType_q := Some m'\<rparr>\<rparr>)"
| meet_called:
    "\<lbrakk>worker_h s = W_called err; handler_h s = H_called\<rbrakk>
     \<Longrightarrow> handleRequest fmtD timeout s
           (s\<lparr>worker_h := (case err of None \<Rightarrow> W_return | Some e \<Rightarrow> W_error e),
              handler_h := H_sent\<rparr>)"
| worker_error:
    "\<lbrakk>worker_h s = W_error e\<rbrakk>
     \<Longrightarrow> handleRequest fmtD timeout s
           (s\<lparr>worker_h := W_sent,
              req_h := (req_h s)\<lparr>h_q := (h_q (req_h s))\<lparr>Error := e\<rparr>\<rparr>,
              wire_h := sendResponse (wire_h s) ((h_q (req_h s))\<lparr>Error := e\<rparr>) invalidRequest\<rparr>)"
| meet_sent:
    "\<lbrakk>worker_h s = W_sent; handler_h s = H_sent\<rbrakk>
     \<Longrightarrow> handleRequest fmtD timeout s (s\<lparr>worker_h := W_return, handler_h := H_return\<rparr>)"
| timer_fires:
    "\<lbrakk>timeout \<noteq> 0; handler_h s = H_called\<rbrakk>
     \<Longrightarrow> handleRequest fmtD timeout s (s\<lparr>handler_h := H_timer\<rparr>)"
| handler_timeout:
    "\<lbrakk>handler_h s = H_timer\<rbrakk>
     \<Longrightarrow> handleRequest fmtD timeout s
           (s\<lparr>handler_h := H_return,
              req_h := (req_h s)\<lparr>h_q := (h_q (req_h s))\<lparr>Error := timeoutText fmtD timeout\<rparr>\<rparr>,
              wire_h := sendResponse (wire_h s)
                          ((h_q (req_h s))\<lparr>Error := timeoutText fmtD timeout\<rparr>) invalidRequest\<rparr>)"

text \<open>
  \<^verbatim>\<open>Register\<close>: \<^verbatim>\<open>LoadOrStore\<close> keeps the service that is already in the map.
\<close>

definition Register ::
  "(string \<Rightarrow> bool) \<Rightarrow> Server \<Rightarrow> Receiver \<Rightarrow> (string option \<times> Server) result" where
  "Register upper s rc =
     (case newService upper rc of
        Panic p \<Rightarrow> Panic p
      | Err e \<Rightarrow> Err e
      | Ok svc \<Rightarrow>
          (case serviceMap s (name_s svc) of
             Some old \<Rightarrow> Ok (Some (''rpc: service already defined:'' @ name_s svc), s)
           | None \<Rightarrow> Ok (None, s\<lparr>serviceMap := (serviceMap s)(name_s svc \<mapsto> svc)\<rparr>)))"

section \<open>The client (package gpmd, client)\<close>

text \<open>
  The connection as the dialer sees it: whether it has been closed, and the options
  written to it by the handshake (the JSON text of an \<open>Option\<close> is the record).
\<close>

record Conn =
  closed_n :: bool
  written_n :: "Option list"

type_synonym call_id = nat

text \<open>
  The fields of \<^verbatim>\<open>Client\<close> that hold data: \<^verbatim>\<open>opt\<close> is a pointer into the heap of
  options, \<^verbatim>\<open>pending\<close> maps a sequence number to a pointer to a \<^verbatim>\<open>Call\<close>.
\<close>

record Client =
  opt_c :: addr
  header_c :: Header
  seq_c :: "64 word"
  pending_c :: "64 word \<rightharpoonup> call_id"
  closing_c :: bool
  shutdown_c :: bool

definition ErrShutdown :: string where
  "ErrShutdown = ''connection is shut down''"

definition NewClientCodec :: "addr \<Rightarrow> Client" where
  "NewClientCodec opt =
     \<lparr>opt_c = opt, header_c = \<lparr>ServiceMethod = [], Seq = 0, Error = []\<rparr>, seq_c = 1,
      pending_c = Map.empty, closing_c = False, shutdown_c = False\<rparr>"

text \<open>
  \<^verbatim>\<open>NewClient\<close>; \<open>enc\<close> is the error of the JSON encoder writing to the connection,
  \<open>None\<close> when the write succeeds.
\<close>

definition NewClient :: "string option \<Rightarrow> heap \<Rightarrow> Conn \<Rightarrow> addr \<Rightarrow> (string + Client) \<times> Conn" where
  "NewClient enc hp conn opt =
     (case NewCodecFuncMap (CodeType (hp opt)) of
        None \<Rightarrow> (Inl (''invalid codec type '' @ CodeType (hp opt)), conn)
      | Some f \<Rightarrow>
          (case enc of
             Some e \<Rightarrow> (Inl e, conn\<lparr>closed_n := True\<rparr>)
           | None \<Rightarrow> (Inr (NewClientCodec opt), conn\<lparr>written_n := written_n conn @ [hp opt]\<rparr>)))"

text \<open>
  \<^verbatim>\<open>parseOptions\<close> on the variadic arguments, each \<^verbatim>\<open>nil\<close> or a pointer. The
  assignments go through the pointer, so they change the heap.
\<close>

definition parseOptions :: "heap \<Rightarrow> addr option list \<Rightarrow> (string + addr) \<times> heap" where
  "parseOptions hp opts =
     (case opts of
        [] \<Rightarrow> (Inr DefaultOption, hp)
      | None # rest \<Rightarrow> (Inr DefaultOption, hp)
      | Some opt # rest \<Rightarrow>
          (if 1 < length opts then (Inl ''number of options is more than one'', hp)
           else
             (let hp1 = hp(opt := (hp opt)\<lparr>MagicNumber_o := MagicNumber_o (hp DefaultOption)\<rparr>);
                  hp2 = (if CodeType (hp1 opt) = []
                         then hp1(opt := (hp1 opt)\<lparr>CodeType := CodeType (hp1 DefaultOption)\<rparr>)
                         else hp1)
              in (Inr opt, hp2))))"

text \<open>
  \<^verbatim>\<open>dialTimeout\<close>. Its environment: \<open>dial\<close> is what \<^verbatim>\<open>net.DialTimeout\<close> returns, an
  error or a connection; \<open>timer\<close> says that the \<^verbatim>\<open>select\<close> takes the case of
  \<^verbatim>\<open>time.After\<close>, the timer having fired before the goroutine that runs \<open>f\<close>
  delivered its result. The deferred function closes the connection whenever the
  error returned is not \<^verbatim>\<open>nil\<close>. The third component is the connection as
  \<^verbatim>\<open>dialTimeout\<close> leaves it, \<open>None\<close> when none was opened. In the timer's case what
  \<open>f\<close> has written by then is not recorded.
\<close>

type_synonym newClientFunc = "heap \<Rightarrow> Conn \<Rightarrow> addr \<Rightarrow> (string + Client) \<times> Conn"

definition closeOnError :: "string + Client \<Rightarrow> Conn \<Rightarrow> Conn" where
  "closeOnError res conn = (case res of Inl e \<Rightarrow> conn\<lparr>closed_n := True\<rparr> | Inr c \<Rightarrow> conn)"

definition connectTimeoutText :: "(Duration \<Rightarrow> string) \<Rightarrow> Duration \<Rightarrow> string" where
  "connectTimeoutText fmtD d = ''rpc client: connect timeout: expect within '' @ fmtD d"

definition dialTimeout ::
  "(Duration \<Rightarrow> string) \<Rightarrow> newClientFunc \<Rightarrow> heap \<Rightarrow> string + Conn \<Rightarrow> bool \<Rightarrow> addr option list \<Rightarrow>
   (string + Client) \<times> heap \<times> Conn option" where
  "dialTimeout fmtD f hp dial timer opts =
     (case parseOptions hp opts of
        (Inl e, hp') \<Rightarrow> (Inl e, hp', None)
      | (Inr opt, hp') \<Rightarrow>
          (case dial of
             Inl e \<Rightarrow> (Inl e, hp', None)
           | Inr conn \<Rightarrow>
               (if ConnectTimeout (hp' opt) = 0 then
                  (case f hp' conn opt of (res, conn') \<Rightarrow> (res, hp', Some (closeOnError res conn')))
                else if timer then
                  (Inl (connectTimeoutText fmtD (ConnectTimeout (hp' opt))), hp',
                   Some (conn\<lparr>closed_n := True\<rparr>))
                else
                  (case f hp' conn opt of (res, conn') \<Rightarrow> (res, hp', Some (closeOnError res conn'))))))"

definition Dial ::
  "(Duration \<Rightarrow> string) \<Rightarrow> string option \<Rightarrow> heap \<Rightarrow> string + Conn \<Rightarrow> bool \<Rightarrow> addr option list \<Rightarrow>
   (string + Client) \<times> heap \<times> Conn option" where
  "Dial fmtD enc hp dial timer opts = dialTimeout fmtD (NewClient enc) hp dial timer opts"

section \<open>Discovery (package xclient)\<close>

text \<open>
  \<^verbatim>\<open>rand.Rand\<close> is the list of the numbers it is going to produce; \<^verbatim>\<open>Intn(n)\<close>
  takes the next one into the range below \<open>n\<close>. \<^verbatim>\<open>SelectMode\<close> is an \<^verbatim>\<open>int\<close>.
  The field \<^verbatim>\<open>index\<close> is an \<^verbatim>\<open>int\<close> that \<^verbatim>\<open>NewMultiServerDiscovery\<close> sets below
  \<open>2\<^sup>3\<^sup>1\<close> and \<^verbatim>\<open>Get\<close> below the length of the list, so that \<open>index + 1\<close> never
  overflows; it is an integer here. Go's \<^verbatim>\<open>%\<close> truncates, as \<open>smod\<close> does, and
  indexing a slice below zero panics.
\<close>

type_synonym Rand = "int list"

definition Intn :: "Rand \<Rightarrow> int \<Rightarrow> int \<times> Rand" where
  "Intn g n = (case g of [] \<Rightarrow> (0, []) | x # g' \<Rightarrow> (x mod n, g'))"

definition MaxInt32 :: int where
  "MaxInt32 = 2147483647"

type_synonym SelectMode = int

definition RandomSelect :: SelectMode where
  "RandomSelect = 0"

definition RoundRobinSelect :: SelectMode where
  "RoundRobinSelect = 1"

record MultiServerDiscovery =
  r_d :: Rand
  servers_d :: "string list"
  index_d :: int

definition NewMultiServerDiscovery :: "string list \<Rightarrow> Rand \<Rightarrow> MultiServerDiscovery" where
  "NewMultiServerDiscovery ss g =
     (case Intn g (MaxInt32 - 1) of (i, g') \<Rightarrow> \<lparr>r_d = g', servers_d = ss, index_d = i\<rparr>)"

definition Update :: "MultiServerDiscovery \<Rightarrow> string list \<Rightarrow> MultiServerDiscovery" where
  "Update d ss = d\<lparr>servers_d := ss\<rparr>"

definition Get :: "MultiServerDiscovery \<Rightarrow> SelectMode \<Rightarrow> string result \<times> MultiServerDiscovery" where
  "Get d mode =
     (let n = int (length (servers_d d)) in
      if n = 0 then (Err ''rpc discovery: no available servers'', d)
      else if mode = RandomSelect then
        (case Intn (r_d d) n of (i, g') \<Rightarrow> (Ok (servers_d d ! nat i), d\<lparr>r_d := g'\<rparr>))
      else if mode = RoundRobinSelect then
        (let i = index_d d smod n in
         if i < 0 then (Panic ''index out of range'', d)
         else (Ok (servers_d d ! nat i), d\<lparr>index_d := (index_d d + 1) smod n\<rparr>))
      else (Err ''rpc discovery: not supported select mode'', d))"

text \<open>Consecutive calls of \<^verbatim>\<open>Get\<close>, one for each mode of the list, with their results.\<close>

fun Gets :: "MultiServerDiscovery \<Rightarrow> SelectMode list \<Rightarrow> string result list \<times> MultiServerDiscovery" where
  "Gets d [] = ([], d)"
| "Gets d (m # ms) =
     (case Get d m of (x, d') \<Rightarrow> (case Gets d' ms of (xs, d'') \<Rightarrow> (x # xs, d'')))"

section \<open>The registry service (package registry)\<close>

record ServerItem =
  Addr :: string
  start :: Time

text \<open>
  \<^verbatim>\<open>servers map[string]*ServerItem\<close> is an association list: its keys are distinct
  (a Go map holds one value per key) and its order stands for the order in which
  \<^verbatim>\<open>range\<close> happens to visit the map, which Go leaves unspecified. The mutex
  makes every method below one atomic step.
\<close>

record Registry =
  timeout :: Duration
  servers :: "(string \<times> ServerItem) list"

definition New :: "Duration \<Rightarrow> Registry" where
  "New t = \<lparr>timeout = t, servers = []\<rparr>"

text \<open>
  \<^verbatim>\<open>time.Now()\<close> is read once for every entry that is written or visited; the
  clock \<open>now\<close> gives the reading taken while the entry of an address is handled.
\<close>

definition putServer :: "Registry \<Rightarrow> string \<Rightarrow> Time \<Rightarrow> Registry" where
  "putServer r addr now =
     (case map_of (servers r) addr of
        None \<Rightarrow> r\<lparr>servers := AList.update addr \<lparr>Addr = addr, start = now\<rparr> (servers r)\<rparr>
      | Some s \<Rightarrow> r\<lparr>servers := AList.update addr (s\<lparr>start := now\<rparr>) (servers r)\<rparr>)"

text \<open>The condition of the loop of \<^verbatim>\<open>aliveServers\<close> for one entry.\<close>

definition alive :: "Duration \<Rightarrow> ServerItem \<Rightarrow> Time \<Rightarrow> bool" where
  "alive t s now = (t = 0 \<or> After (Add (start s) t) now)"

text \<open>
  The loop \<^verbatim>\<open>for addr, s := range r.servers\<close>: the entries still to visit, then the
  slice \<^verbatim>\<open>alive\<close> and the map as they stand.
\<close>

fun aliveLoop ::
  "Duration \<Rightarrow> (string \<Rightarrow> Time) \<Rightarrow> (string \<times> ServerItem) list \<Rightarrow>
   string list \<Rightarrow> (string \<times> ServerItem) list \<Rightarrow> string list \<times> (string \<times> ServerItem) list"
where
  "aliveLoop t now [] acc m = (acc, m)"
| "aliveLoop t now ((addr, s) # rest) acc m =
     (if alive t s (now addr) then aliveLoop t now rest (acc @ [addr]) m
      else aliveLoop t now rest acc (AList.delete addr m))"

definition aliveServers :: "Registry \<Rightarrow> (string \<Rightarrow> Time) \<Rightarrow> string list \<times> Registry" where
  "aliveServers r now =
     (case aliveLoop (timeout r) now (servers r) [] (servers r) of
        (acc, m) \<Rightarrow> (sort acc, r\<lparr>servers := m\<rparr>))"

text \<open>\<^verbatim>\<open>strings.Join\<close>.\<close>

fun Join :: "string list \<Rightarrow> string \<Rightarrow> string" where
  "Join [] sep = []"
| "Join [x] sep = x"
| "Join (x # y # xs) sep = x @ sep @ Join (y # xs) sep"

text \<open>
  The HTTP request and the response writer, as far as the handler touches them. A header
  is a map from a field name to its values; \<^verbatim>\<open>Get\<close> returns the first value, or
  the empty string when there is none. Both sides name the one field by the same
  literal, so the canonical spelling of field names is left out. A \<open>status\<close> of
  \<open>None\<close> is a writer on which \<^verbatim>\<open>WriteHeader\<close> was never called.
\<close>

type_synonym HttpHeader = "string \<rightharpoonup> string list"

definition Header_Get :: "HttpHeader \<Rightarrow> string \<Rightarrow> string" where
  "Header_Get h k = (case h k of None \<Rightarrow> [] | Some [] \<Rightarrow> [] | Some (v # vs) \<Rightarrow> v)"

definition Header_Set :: "HttpHeader \<Rightarrow> string \<Rightarrow> string \<Rightarrow> HttpHeader" where
  "Header_Set h k v = h(k \<mapsto> [v])"

record Request =
  Method :: string
  ReqHeader :: HttpHeader

record ResponseWriter =
  wheader :: HttpHeader
  status :: "nat option"

definition WriteHeader :: "ResponseWriter \<Rightarrow> nat \<Rightarrow> ResponseWriter" where
  "WriteHeader w code = (case status w of None \<Rightarrow> w\<lparr>status := Some code\<rparr> | Some c \<Rightarrow> w)"

definition StatusInternalServerError :: nat where
  "StatusInternalServerError = 500"

definition StatusMethodNotAllowed :: nat where
  "StatusMethodNotAllowed = 405"

definition ServeHTTP ::
  "Registry \<Rightarrow> ResponseWriter \<Rightarrow> Request \<Rightarrow> (string \<Rightarrow> Time) \<Rightarrow> Registry \<times> ResponseWriter"
where
  "ServeHTTP r w req now =
     (if Method req = ''GET'' then
        (case aliveServers r now of
           (al, r') \<Rightarrow> (r', w\<lparr>wheader := Header_Set (wheader w) ''X-GPMD-SERVERS'' (Join al '','')\<rparr>))
      else if Method req = ''POST'' then
        (let addr = Header_Get (ReqHeader req) ''X-GPMD-SERVERS'' in
         if addr = [] then (r, WriteHeader w StatusInternalServerError)
         else (putServer r addr (now addr), w))
      else (r, WriteHeader w StatusMethodNotAllowed))"

section \<open>The example service (package main)\<close>

text \<open>
  \<^verbatim>\<open>type Foo int\<close>, \<^verbatim>\<open>type Args struct{ Num1, Num2 int }\<close> and the method
  \<^verbatim>\<open>func (f Foo) Sum(args Args, reply *int) error\<close>, registered through a pointer
  \<^verbatim>\<open>&foo\<close>. An \<^verbatim>\<open>int\<close> has 64 bits and its sum wraps around.
\<close>

definition Args :: GoType where
  "Args = Named ''main'' ''Args'' (StructOf [(''Num1'', IntT), (''Num2'', IntT)])"

definition Foo :: GoType where
  "Foo = Named ''main'' ''Foo'' IntT"

definition int64 :: "int \<Rightarrow> int" where
  "int64 x = sint (word_of_int x :: 64 word)"

definition Sum_body :: "Value \<Rightarrow> Value \<Rightarrow> Value \<Rightarrow> Value \<times> string option" where
  "Sum_body f args reply =
     (case (args, reply) of
        (StructV [(n1, IntV a), (n2, IntV b)], PtrV (Some r)) \<Rightarrow>
          (PtrV (Some (IntV (int64 (a + b)))), None)
      | _ \<Rightarrow> (reply, Some ''Sum: not called on (Foo, Args, *int)''))"

definition Sum :: Method where
  "Sum = \<lparr>Name_m = ''Sum'', In_m = [PtrTo Foo, Args, PtrTo IntT], Out_m = [errorType],
          Func_m = Sum_body\<rparr>"

definition foo :: Receiver where
  "foo = \<lparr>rtype = PtrTo Foo, rvalue = PtrV (Some (IntV 0)), rmethods = [Sum]\<rparr>"

definition fooService :: service where
  "fooService =
     \<lparr>name_s = ''Foo'', typ_s = PtrTo Foo, rcvr_s = PtrV (Some (IntV 0)),
      method_s = [''Sum'' \<mapsto> \<lparr>method_t = Sum, ArgType = Args, ReplyType = PtrTo IntT, numCalls = 0\<rparr>]\<rparr>"

definition fooServer :: Server where
  "fooServer = \<lparr>serviceMap = [''Foo'' \<mapsto> fooService]\<rparr>"

text \<open>
  A method that registration admits although its reply is not a pointer:
  \<^verbatim>\<open>func (f Foo) Bad(args Args, reply Args) error\<close>.
\<close>

definition Bad :: Method where
  "Bad = \<lparr>Name_m = ''Bad'', In_m = [PtrTo Foo, Args, Args], Out_m = [errorType],
          Func_m = (\<lambda>f args reply. (reply, None))\<rparr>"

definition bad :: Receiver where
  "bad = \<lparr>rtype = PtrTo Foo, rvalue = PtrV (Some (IntV 0)), rmethods = [Bad]\<rparr>"

text \<open>
  The server after \<^verbatim>\<open>Register(&bad)\<close>; every name involved starts with an ASCII
  letter, so the classification of other runes is never asked (it is \<open>False\<close> here).
\<close>

definition badServer :: Server where
  "badServer =
     (case Register (\<lambda>n. False) NewServer bad of Ok (e, s) \<Rightarrow> s | _ \<Rightarrow> NewServer)"

text \<open>
  The request that \<^verbatim>\<open>readRequest\<close> builds for a call of \<^verbatim>\<open>Foo.Sum\<close> with
  \<^verbatim>\<open>{Num1: 3, Num2: 4}\<close>, and the state of \<^verbatim>\<open>handleRequest\<close> once the method has
  returned and the two goroutines have met on \<^verbatim>\<open>called\<close>.
\<close>

definition sumRequest :: request where
  "sumRequest =
     \<lparr>h_q = \<lparr>ServiceMethod = ''Foo.Sum'', Seq = 1, Error = []\<rparr>,
      argv_q = Some (Args, StructV [(''Num1'', IntV 3), (''Num2'', IntV 4)]),
      replyv_q = Some (PtrTo IntT, PtrV (Some (IntV 0))),
      mType_q = Some \<lparr>method_t = Sum, ArgType = Args, ReplyType = PtrTo IntT, numCalls = 0\<rparr>,
      svc_q = Some fooService\<rparr>"

definition sumCalled :: hstate where
  "sumCalled =
     \<lparr>worker_h = W_return, handler_h = H_sent,
      req_h = sumRequest
        \<lparr>replyv_q := Some (PtrTo IntT, PtrV (Some (IntV 7))),
         mType_q := Some \<lparr>method_t = Sum, ArgType = Args, ReplyType = PtrTo IntT, numCalls = 1\<rparr>\<rparr>,
      wire_h = []\<rparr>"

text \<open>
  A heap in which every cell holds the default options but the one at \<open>optA\<close>, which a
  caller filled with a magic number of its own, no codec and a connect timeout of
  100 ms; \<open>optA'\<close> is that cell after \<^verbatim>\<open>parseOptions\<close>. A fresh connection.
\<close>

definition optA :: addr where
  "optA = 1"

definition heapA :: heap where
  "heapA = (\<lambda>a. DefaultOption_value)
     (optA := \<lparr>MagicNumber_o = 42, CodeType = [], ConnectTimeout = 100000000, HandleTimeout = 0\<rparr>)"

definition optA' :: Option where
  "optA' = \<lparr>MagicNumber_o = MagicNumber, CodeType = GobType, ConnectTimeout = 100000000,
            HandleTimeout = 0\<rparr>"

definition conn0 :: Conn where
  "conn0 = \<lparr>closed_n = False, written_n = []\<rparr>"

text \<open>
  \<^verbatim>\<open>DefaultOption\<close> points to a struct whose fields are exported, so any package
  can assign to them. \<open>heapM\<close> is the heap after \<^verbatim>\<open>DefaultOption.MagicNumber = 0\<close>.
\<close>

definition heapM :: heap where
  "heapM = (\<lambda>a. DefaultOption_value)(DefaultOption := DefaultOption_value\<lparr>MagicNumber_o := 0\<rparr>)"

text \<open>A discovery over three servers whose generator produces 7 first.\<close>

definition abc :: MultiServerDiscovery where
  "abc = NewMultiServerDiscovery [''a'', ''b'', ''c''] [7, 11]"

text \<open>Requests to the registry, a fresh response writer, and three entries.\<close>

definition getRequest :: Request where
  "getRequest = \<lparr>Method = ''GET'', ReqHeader = Map.empty\<rparr>"

definition postRequest :: "string \<Rightarrow> Request" where
  "postRequest a = \<lparr>Method = ''POST'', ReqHeader = [''X-GPMD-SERVERS'' \<mapsto> [a]]\<rparr>"

definition writer0 :: ResponseWriter where
  "writer0 = \<lparr>wheader = Map.empty, status = None\<rparr>"

definition itemA :: ServerItem where
  "itemA = \<lparr>Addr = ''A'', start = 0\<rparr>"

definition itemB :: ServerItem where
  "itemB = \<lparr>Addr = ''B'', start = 3\<rparr>"

definition itemC :: ServerItem where
  "itemC = \<lparr>Addr = ''C'', start = 2\<rparr>"

definition registry3 :: Registry where
  "registry3 = \<lparr>timeout = 5, servers = [(''C'', itemC), (''A'', itemA), (''B'', itemB)]\<rparr>"

text \<open>
  The invariant of \<^verbatim>\<open>handleRequest\<close> for a request whose method returns no error:
  the worker never enters \<^verbatim>\<open>if err != nil\<close>, and the only frame that can reach the
  wire is the handler's timeout response.
\<close>

definition quiet :: "(Duration \<Rightarrow> string) \<Rightarrow> Duration \<Rightarrow> wire \<Rightarrow> request \<Rightarrow> hstate \<Rightarrow> bool" where
  "quiet fmtD tmo cc req s =
     (svc_q (req_h s) = svc_q req \<and> argv_q (req_h s) = argv_q req
      \<and> (worker_h s = W_call \<and> replyv_q (req_h s) = replyv_q req \<and> mType_q (req_h s) = mType_q req
         \<or> worker_h s = W_called None \<or> worker_h s = W_return)
      \<and> (handler_h s = H_sent \<longrightarrow> worker_h s = W_return)
      \<and> (handler_h s = H_timer \<longrightarrow> tmo \<noteq> 0)
      \<and> (if handler_h s = H_return
          then tmo \<noteq> 0
             \<and> wire_h s = cc @ [((h_q req)\<lparr>Error := timeoutText fmtD tmo\<rparr>, invalidRequest)]
          else wire_h s = cc \<and> h_q (req_h s) = h_q req))"

chapter \<open>The properties\<close>

section \<open>Resolution of a service-method key\<close>

lemma filter_rev_upt_Nil: "(\<And>j. j < k \<Longrightarrow> \<not> P j) \<Longrightarrow> filter P (rev [0..<k]) = []"
  by (simp add: filter_empty_conv)

lemma filter_rev_upt_Cons:
  assumes "i < k" "P i" "\<And>j. i < j \<Longrightarrow> j < k \<Longrightarrow> \<not> P j"
  shows "filter P (rev [0..<k]) = i # filter P (rev [0..<i])"
proof -
  have "[0..<k] = [0..<i] @ [i..<k]"
    using upt_add_eq_append [of 0 i "k - i"] assms(1) by simp
  then have "[0..<k] = [0..<i] @ i # [Suc i..<k]"
    using assms(1) by (simp add: upt_conv_Cons)
  then have "rev [0..<k] = rev [Suc i..<k] @ i # rev [0..<i]" by simp
  moreover have "filter P (rev [Suc i..<k]) = []"
    using assms(3) by (auto simp: filter_empty_conv)
  ultimately show ?thesis using assms(2) by simp
qed

lemma take1_drop: "(take (Suc 0) (drop i s) = [c]) = (i < length s \<and> s ! i = c)"
proof (cases "i < length s")
  case True
  then have "drop i s = s ! i # drop (Suc i) s" by (simp add: Cons_nth_drop_Suc)
  then show ?thesis using True by simp
next
  case False
  then show ?thesis by simp
qed

lemma LastIndex_absent:
  assumes "c \<notin> set s"
  shows "LastIndex s [c] = - 1"
proof -
  have "filter (\<lambda>i. take (length [c]) (drop i s) = [c]) (rev [0..<Suc (length s - length [c])]) = []"
    using assms by (intro filter_rev_upt_Nil) (auto simp: take1_drop)
  then show ?thesis by (simp add: LastIndex_def)
qed

lemma LastIndex_split:
  assumes "c \<notin> set b"
  shows "LastIndex (a @ c # b) [c] = int (length a)"
proof -
  define s where "s = a @ c # b"
  let ?P = "\<lambda>i. take (Suc 0) (drop i s) = [c]"
  have k: "Suc (length s - length [c]) = length s" by (simp add: s_def)
  have "filter ?P (rev [0..<length s]) = length a # filter ?P (rev [0..<length a])"
  proof (rule filter_rev_upt_Cons)
    show "length a < length s" by (simp add: s_def)
    show "?P (length a)" by (simp add: s_def)
    fix j assume j: "length a < j" "j < length s"
    then have "s ! j = b ! (j - Suc (length a))"
      by (simp add: s_def nth_append nth_Cons')
    moreover have "j - Suc (length a) < length b" using j by (simp add: s_def)
    ultimately have "s ! j \<in> set b" by simp
    then show "\<not> ?P j" using assms unfolding take1_drop by auto
  qed
  then show ?thesis unfolding LastIndex_def k s_def [symmetric] by simp
qed

lemma findService_ill_formed:
  assumes "CHR ''.'' \<notin> set key"
  shows "findService s key = (None, None, Some (''rpc server: service/method request ill-formed:'' @ key))"
  using LastIndex_absent [OF assms] by (simp add: findService_def)

lemma findService_split:
  assumes "CHR ''.'' \<notin> set b"
  shows "findService s (a @ ''.'' @ b) =
     (case serviceMap s a of
        None \<Rightarrow> (None, None, Some (''rpc server: can't find service'' @ a))
      | Some svc \<Rightarrow>
          (case method_s svc b of
             None \<Rightarrow> (Some svc, None, Some (''rpc server: can't find method '' @ b))
           | Some m \<Rightarrow> (Some svc, Some m, None)))"
proof -
  have "LastIndex (a @ ''.'' @ b) ''.'' = int (length a)"
    using LastIndex_split [OF assms, of a] by simp
  then show ?thesis by (simp add: findService_def Let_def nat_add_distrib)
qed

lemma key_cases:
  "CHR ''.'' \<notin> set key \<or> (\<exists>a b. key = a @ ''.'' @ b \<and> CHR ''.'' \<notin> set b)"
proof (cases "CHR ''.'' \<in> set key")
  case True
  then obtain a b where "key = a @ CHR ''.'' # b" "CHR ''.'' \<notin> set b"
    by (meson split_list_last)
  then show ?thesis by auto
qed simp

lemma error_texts_differ:
  "''rpc server: service/method request ill-formed:'' @ k \<noteq> ''rpc server: can't find service'' @ a"
  "''rpc server: service/method request ill-formed:'' @ k \<noteq> ''rpc server: can't find method '' @ b"
  "''rpc server: can't find service'' @ a \<noteq> ''rpc server: can't find method '' @ b"
  by simp_all

text \<open>
  Claim C5. \<^verbatim>\<open>findService\<close> splits the key at its last dot and fails in three
  ways, with three texts that differ whatever the names are: a key without a dot is
  ill-formed; a key \<open>a.b\<close> (no dot in \<open>b\<close>) whose service \<open>a\<close> is not in the map is
  an unknown service; one whose method \<open>b\<close> is not in the table of the service is an
  unknown method, the text being \<^verbatim>\<open>rpc server: can't find method\<close> followed by
  \<open>b\<close>, and the loop of \<^verbatim>\<open>serveCodec\<close> answers with that text in the header's
  error and \<^verbatim>\<open>invalidRequest\<close> as the body. With service and method present the
  lookup succeeds. Every key is of one of the two shapes (\<open>key_cases\<close>).
\<close>

theorem findService_errors:
  "(CHR ''.'' \<notin> set key \<longrightarrow>
      findService s key =
        (None, None, Some (''rpc server: service/method request ill-formed:'' @ key)))
   \<and> (CHR ''.'' \<notin> set b \<and> serviceMap s a = None \<longrightarrow>
      findService s (a @ ''.'' @ b) = (None, None, Some (''rpc server: can't find service'' @ a)))
   \<and> (CHR ''.'' \<notin> set b \<and> serviceMap s a = Some svc \<and> method_s svc b = None \<longrightarrow>
      findService s (a @ ''.'' @ b) = (Some svc, None, Some (''rpc server: can't find method '' @ b))
      \<and> serveCodec_turn s cc (Inr (h\<lparr>ServiceMethod := a @ ''.'' @ b\<rparr>)) rb =
          Ok (Continue (cc @ [(h\<lparr>ServiceMethod := a @ ''.'' @ b,
                                  Error := ''rpc server: can't find method '' @ b\<rparr>, invalidRequest)]))
      \<and> sublist (''can't find method '' @ b) (''rpc server: can't find method '' @ b))
   \<and> (CHR ''.'' \<notin> set b \<and> serviceMap s a = Some svc \<and> method_s svc b = Some m \<longrightarrow>
      findService s (a @ ''.'' @ b) = (Some svc, Some m, None))
   \<and> ''rpc server: service/method request ill-formed:'' @ key \<noteq> ''rpc server: can't find service'' @ a
   \<and> ''rpc server: service/method request ill-formed:'' @ key \<noteq> ''rpc server: can't find method '' @ b
   \<and> ''rpc server: can't find service'' @ a \<noteq> ''rpc server: can't find method '' @ b"
proof (intro conjI impI)
  assume "CHR ''.'' \<notin> set key"
  then show "findService s key =
      (None, None, Some (''rpc server: service/method request ill-formed:'' @ key))"
    by (rule findService_ill_formed)
next
  assume "CHR ''.'' \<notin> set b \<and> serviceMap s a = None"
  then show "findService s (a @ ''.'' @ b) = (None, None, Some (''rpc server: can't find service'' @ a))"
    using findService_split [of b s a] by simp
next
  assume h: "CHR ''.'' \<notin> set b \<and> serviceMap s a = Some svc \<and> method_s svc b = None"
  then show f: "findService s (a @ ''.'' @ b) =
      (Some svc, None, Some (''rpc server: can't find method '' @ b))"
    using findService_split [of b s a] by simp
  show "serveCodec_turn s cc (Inr (h\<lparr>ServiceMethod := a @ ''.'' @ b\<rparr>)) rb =
          Ok (Continue (cc @ [(h\<lparr>ServiceMethod := a @ ''.'' @ b,
                                  Error := ''rpc server: can't find method '' @ b\<rparr>, invalidRequest)]))"
    using f by (simp add: serveCodec_turn_def readRequest_def readRequestHeader_def sendResponse_def)
  have "''rpc server: can't find method '' @ b = ''rpc server: '' @ (''can't find method '' @ b) @ []"
    by simp
  then show "sublist (''can't find method '' @ b) (''rpc server: can't find method '' @ b)"
    unfolding sublist_def by blast
next
  assume "CHR ''.'' \<notin> set b \<and> serviceMap s a = Some svc \<and> method_s svc b = Some m"
  then show "findService s (a @ ''.'' @ b) = (Some svc, Some m, None)"
    using findService_split [of b s a] by simp
qed (simp_all add: error_texts_differ)

theorem findService_errors_witness:
  "findService fooServer ''FooNope'' =
     (None, None, Some ''rpc server: service/method request ill-formed:FooNope'')
   \<and> findService fooServer ''Bar.Sum'' = (None, None, Some ''rpc server: can't find serviceBar'')
   \<and> findService fooServer ''Foo.Nope'' = (Some fooService, None, Some ''rpc server: can't find method Nope'')
   \<and> serveCodec_turn fooServer [] (Inr \<lparr>ServiceMethod = ''Foo.Nope'', Seq = 1, Error = []\<rparr>) (Inl ''unread'') =
        Ok (Continue [(\<lparr>ServiceMethod = ''Foo.Nope'', Seq = 1, Error = ''rpc server: can't find method Nope''\<rparr>,
                        invalidRequest)])
   \<and> sublist ''can't find method Nope'' ''rpc server: can't find method Nope''
   \<and> findService fooServer ''Foo.Sum'' =
        (Some fooService, Some \<lparr>method_t = Sum, ArgType = Args, ReplyType = PtrTo IntT, numCalls = 0\<rparr>, None)"
proof -
  have 1: "CHR ''.'' \<notin> set ''FooNope''" by simp
  have 2: "CHR ''.'' \<notin> set ''Sum'' \<and> serviceMap fooServer ''Bar'' = None"
    by (simp add: fooServer_def)
  have 3: "CHR ''.'' \<notin> set ''Nope'' \<and> serviceMap fooServer ''Foo'' = Some fooService
      \<and> method_s fooService ''Nope'' = None"
    by (simp add: fooServer_def fooService_def)
  have 4: "CHR ''.'' \<notin> set ''Sum'' \<and> serviceMap fooServer ''Foo'' = Some fooService
      \<and> method_s fooService ''Sum'' = Some \<lparr>method_t = Sum, ArgType = Args, ReplyType = PtrTo IntT, numCalls = 0\<rparr>"
    by (simp add: fooServer_def fooService_def)
  show ?thesis
    using 1 2 3 4
      findService_errors [of "''FooNope''" fooServer "''Sum''" "''Bar''"]
      findService_errors [of "''FooNope''" fooServer "''Nope''" "''Foo''" fooService "[]"
        "\<lparr>ServiceMethod = ''Foo.Nope'', Seq = 1, Error = []\<rparr>" "Inl ''unread''"]
      findService_errors [of "''FooNope''" fooServer "''Sum''" "''Foo''" fooService _ _ _
        "\<lparr>method_t = Sum, ArgType = Args, ReplyType = PtrTo IntT, numCalls = 0\<rparr>"]
    by simp
qed

section \<open>Registration and the carriers of a request\<close>

lemma registerLoop_other:
  "k \<notin> set (map Name_m ms) \<Longrightarrow> registerLoop upper ms tab k = tab k"
  by (induction ms arbitrary: tab) (auto simp: Let_def)

lemma registerLoop_admits:
  assumes "m \<in> set ms" "distinct (map Name_m ms)"
    and "length (In_m m) = 3" "length (Out_m m) = 1" "Out_m m ! 0 = errorType"
    and "isExportedOrBuiltinType upper (In_m m ! 1)" "isExportedOrBuiltinType upper (In_m m ! 2)"
  shows "registerLoop upper ms tab (Name_m m) =
     Some \<lparr>method_t = m, ArgType = In_m m ! 1, ReplyType = In_m m ! 2, numCalls = 0\<rparr>"
  using assms(1,2)
proof (induction ms arbitrary: tab)
  case Nil
  then show ?case by simp
next
  case (Cons x xs)
  show ?case
  proof (cases "x = m")
    case True
    then have "Name_m m \<notin> set (map Name_m xs)" using Cons.prems by auto
    then show ?thesis
      using True assms(3-7) by (simp add: registerLoop_other Let_def)
  next
    case False
    then have "m \<in> set xs" "distinct (map Name_m xs)" using Cons.prems by auto
    then show ?thesis using Cons.IH by (simp add: Let_def)
  qed
qed

lemma Elem_Ptr: "Kind_of t = Ptr_k \<Longrightarrow> \<exists>u. Elem t = Ok u"
  by (induction t) auto

lemma Elem_panics:
  "Kind_of t \<in> {Bool_k, Int_k, Uint64_k, String_k, Func_k, Interface_k, Struct_k}
   \<Longrightarrow> Elem t = Panic ''reflect: Elem of invalid type''"
  by (induction t) auto

lemma newArgv_Ok: "\<exists>v. newArgv m = Ok v"
  using Elem_Ptr [of "ArgType m"] by (auto simp: newArgv_def)

text \<open>
  Claim C9. Registration checks the number of inputs and outputs, the error result and
  that argument and reply types are exported or built in; it does not ask the reply to
  be a pointer. A method of a receiver whose inputs are the receiver, an exported
  argument and an exported reply of a kind that has no element type (a struct, say),
  with the single result \<^verbatim>\<open>error\<close>, is recorded in the table; \<^verbatim>\<open>newReply\<close> on
  the recorded method type panics in \<^verbatim>\<open>Elem\<close>, and so does \<^verbatim>\<open>readRequest\<close> on a
  request addressed to the method.
\<close>

theorem registerMethod_admits_reply_without_Elem:
  assumes "m \<in> set ms" and "distinct (map Name_m ms)"
    and "In_m m = [rt, at, rp]" and "Out_m m = [errorType]"
    and "IsExported upper (Name at)" and "IsExported upper (Name rp)"
    and "Kind_of rp \<in> {Bool_k, Int_k, Uint64_k, String_k, Func_k, Interface_k, Struct_k}"
    and "serviceMap s a = Some (registerMethod upper svc ms)"
    and "CHR ''.'' \<notin> set (Name_m m)"
  shows "method_s (registerMethod upper svc ms) (Name_m m) =
           Some \<lparr>method_t = m, ArgType = at, ReplyType = rp, numCalls = 0\<rparr>
       \<and> newReply \<lparr>method_t = m, ArgType = at, ReplyType = rp, numCalls = 0\<rparr> =
           Panic ''reflect: Elem of invalid type''
       \<and> readRequest s (Inr (h\<lparr>ServiceMethod := a @ ''.'' @ Name_m m\<rparr>)) rb =
           Panic ''reflect: Elem of invalid type''"
proof -
  let ?mt = "\<lparr>method_t = m, ArgType = at, ReplyType = rp, numCalls = 0\<rparr>"
  have reg: "method_s (registerMethod upper svc ms) (Name_m m) = Some ?mt"
    using registerLoop_admits [OF assms(1,2), of upper Map.empty] assms(3-6)
    by (simp add: registerMethod_def isExportedOrBuiltinType_def)
  have pan: "newReply ?mt = Panic ''reflect: Elem of invalid type''"
    using Elem_panics [OF assms(7)] by (simp add: newReply_def)
  have fs: "findService s (a @ ''.'' @ Name_m m) = (Some (registerMethod upper svc ms), Some ?mt, None)"
    using findService_split [OF assms(9), of s a] assms(8) reg by simp
  obtain v where v: "newArgv ?mt = Ok v" using newArgv_Ok by blast
  have "readRequest s (Inr (h\<lparr>ServiceMethod := a @ ''.'' @ Name_m m\<rparr>)) rb =
           Panic ''reflect: Elem of invalid type''"
    using fs v pan by (simp add: readRequest_def readRequestHeader_def)
  with reg pan show ?thesis by simp
qed

theorem registerMethod_admits_reply_without_Elem_witness:
  "method_s (registerMethod (\<lambda>n. False)
      \<lparr>name_s = ''Foo'', typ_s = PtrTo Foo, rcvr_s = PtrV (Some (IntV 0)), method_s = Map.empty\<rparr> [Bad]) ''Bad'' =
      Some \<lparr>method_t = Bad, ArgType = Args, ReplyType = Args, numCalls = 0\<rparr>
   \<and> newReply \<lparr>method_t = Bad, ArgType = Args, ReplyType = Args, numCalls = 0\<rparr> =
           Panic ''reflect: Elem of invalid type''
   \<and> Register (\<lambda>n. False) NewServer bad = Ok (None, badServer)
   \<and> readRequest badServer (Inr \<lparr>ServiceMethod = ''Foo.Bad'', Seq = 1, Error = []\<rparr>)
        (Inr (StructV [(''Num1'', IntV 3), (''Num2'', IntV 4)])) =
           Panic ''reflect: Elem of invalid type''"
proof -
  let ?svc = "\<lparr>name_s = ''Foo'', typ_s = PtrTo Foo, rcvr_s = PtrV (Some (IntV 0)), method_s = Map.empty\<rparr>"
  have r: "Register (\<lambda>n. False) NewServer bad =
      Ok (None, \<lparr>serviceMap = [''Foo'' \<mapsto> registerMethod (\<lambda>n. False) ?svc [Bad]]\<rparr>)"
    by (simp add: Register_def newService_def NewServer_def bad_def Indirect_type_def Foo_def
        IsExported_def isUpper_def registerMethod_def)
  then have b: "badServer = \<lparr>serviceMap = [''Foo'' \<mapsto> registerMethod (\<lambda>n. False) ?svc [Bad]]\<rparr>"
    by (simp add: badServer_def)
  have 1: "Bad \<in> set [Bad]" "distinct (map Name_m [Bad])" by simp_all
  have 2: "In_m Bad = [PtrTo Foo, Args, Args]" "Out_m Bad = [errorType]" by (simp_all add: Bad_def)
  have 3: "IsExported (\<lambda>n. False) (Name Args)" by (simp add: Args_def IsExported_def isUpper_def)
  have 4: "Kind_of Args \<in> {Bool_k, Int_k, Uint64_k, String_k, Func_k, Interface_k, Struct_k}"
    by (simp add: Args_def)
  have 5: "serviceMap badServer ''Foo'' = Some (registerMethod (\<lambda>n. False) ?svc [Bad])" by (simp add: b)
  have 6: "CHR ''.'' \<notin> set (Name_m Bad)" by (simp add: Bad_def)
  have n: "Name_m Bad = ''Bad''" by (simp add: Bad_def)
  show ?thesis
    using registerMethod_admits_reply_without_Elem [OF 1 2 3 3 4 5 6,
        of "\<lparr>ServiceMethod = ''Foo.Bad'', Seq = 1, Error = []\<rparr>"
           "Inr (StructV [(''Num1'', IntV 3), (''Num2'', IntV 4)])"] r b
    by (simp add: n)
qed

section \<open>Dispatch of a request\<close>

lemma Register_foo: "Register upper NewServer foo = Ok (None, fooServer)"
  by (simp add: fooServer_def fooService_def Register_def newService_def NewServer_def foo_def
      Indirect_type_def Foo_def IsExported_def isUpper_def registerMethod_def Sum_def errorType_def
      isExportedOrBuiltinType_def Args_def Let_def)

lemma readRequest_sum:
  "serveCodec_turn fooServer [] (Inr \<lparr>ServiceMethod = ''Foo.Sum'', Seq = 1, Error = []\<rparr>)
      (Inr (StructV [(''Num1'', IntV 3), (''Num2'', IntV 4)])) = Ok (Dispatch sumRequest)"
proof -
  have "CHR ''.'' \<notin> set ''Sum''" by simp
  from findService_split [OF this, of fooServer "''Foo''"]
  have "findService fooServer ''Foo.Sum'' =
      (Some fooService, Some \<lparr>method_t = Sum, ArgType = Args, ReplyType = PtrTo IntT, numCalls = 0\<rparr>, None)"
    by (simp add: fooServer_def fooService_def)
  then show ?thesis
    by (simp add: serveCodec_turn_def readRequest_def readRequestHeader_def newArgv_def newReply_def
        Args_def New_r_def decodeInto_def sumRequest_def)
qed

lemma quiet_init: "quiet fmtD tmo cc req (handleRequest_init cc req)"
  by (simp add: quiet_def handleRequest_init_def)

lemma quiet_step:
  assumes "handleRequest fmtD tmo s s'" and "quiet fmtD tmo cc req s"
    and "svc_q req = Some svc" "mType_q req = Some m" "argv_q req = Some argv"
        "replyv_q req = Some replyv" "fst (call svc m argv replyv) = None"
  shows "quiet fmtD tmo cc req s'"
  using assms(1)
proof cases
  case (worker_call svc' m' argv' replyv' err rv mm)
  then show ?thesis using assms(2-) by (auto simp: quiet_def)
next
  case (meet_called err)
  then show ?thesis using assms(2) by (auto simp: quiet_def)
next
  case (worker_error e)
  then show ?thesis using assms(2) by (auto simp: quiet_def)
next
  case meet_sent
  then show ?thesis using assms(2) by (auto simp: quiet_def)
next
  case timer_fires
  then show ?thesis using assms(2) by (auto simp: quiet_def)
next
  case handler_timeout
  then show ?thesis using assms(2) by (auto simp: quiet_def sendResponse_def)
qed

lemma quiet_reachable:
  assumes "(handleRequest fmtD tmo)\<^sup>*\<^sup>* (handleRequest_init cc req) s"
    and "svc_q req = Some svc" "mType_q req = Some m" "argv_q req = Some argv"
        "replyv_q req = Some replyv" "fst (call svc m argv replyv) = None"
  shows "quiet fmtD tmo cc req s"
  using assms(1)
proof (induction rule: rtranclp_induct)
  case base
  show ?case by (rule quiet_init)
next
  case (step y z)
  show ?case by (rule quiet_step [OF step.hyps(2) step.IH assms(2-)])
qed

text \<open>
  Claim C1 says that a request whose method returns a nil error is answered by a
  response with an empty error and the reply as its body. What \<^verbatim>\<open>handleRequest\<close>
  does for such a request, in every state it can reach: the wire holds what it held
  before, or, with a handle timeout other than zero, the one timeout response, whose
  error is not empty. With a timeout of zero nothing is ever written and the handler
  never returns: once the goroutines have met on \<^verbatim>\<open>called\<close> the worker has returned,
  the handler waits on \<^verbatim>\<open>sent\<close>, and no step is left.
\<close>

theorem handleRequest_nil_error_sends_no_reply:
  assumes "svc_q req = Some svc" and "mType_q req = Some m" and "argv_q req = Some argv"
    and "replyv_q req = Some replyv" and "fst (call svc m argv replyv) = None"
    and "(handleRequest fmtD tmo)\<^sup>*\<^sup>* (handleRequest_init cc req) s"
  shows "(wire_h s = cc
          \<or> tmo \<noteq> 0 \<and> handler_h s = H_return
            \<and> wire_h s = cc @ [((h_q req)\<lparr>Error := timeoutText fmtD tmo\<rparr>, invalidRequest)])
       \<and> (tmo = 0 \<longrightarrow> wire_h s = cc \<and> handler_h s \<noteq> H_return)
       \<and> (handler_h s = H_sent \<longrightarrow> \<not> (\<exists>s'. handleRequest fmtD tmo s s'))
       \<and> timeoutText fmtD tmo \<noteq> []"
proof -
  have q: "quiet fmtD tmo cc req s"
    by (rule quiet_reachable [OF assms(6) assms(1-5)])
  have 1: "wire_h s = cc
          \<or> tmo \<noteq> 0 \<and> handler_h s = H_return
            \<and> wire_h s = cc @ [((h_q req)\<lparr>Error := timeoutText fmtD tmo\<rparr>, invalidRequest)]"
    using q by (auto simp: quiet_def split: if_splits)
  have 2: "tmo = 0 \<longrightarrow> wire_h s = cc \<and> handler_h s \<noteq> H_return"
    using q by (auto simp: quiet_def split: if_splits)
  have 3: "\<not> (\<exists>s'. handleRequest fmtD tmo s s')" if h: "handler_h s = H_sent"
  proof
    assume "\<exists>s'. handleRequest fmtD tmo s s'"
    then obtain s' where "handleRequest fmtD tmo s s'" ..
    moreover have "worker_h s = W_return" using q h by (simp add: quiet_def)
    ultimately show False using h by cases auto
  qed
  have 4: "timeoutText fmtD tmo \<noteq> []" by (simp add: timeoutText_def)
  from 1 2 3 4 show ?thesis by blast
qed

lemma call_sum:
  "call fooService \<lparr>method_t = Sum, ArgType = Args, ReplyType = PtrTo IntT, numCalls = 0\<rparr>
     (Args, StructV [(''Num1'', IntV 3), (''Num2'', IntV 4)]) (PtrTo IntT, PtrV (Some (IntV 0))) =
   (None, (PtrTo IntT, PtrV (Some (IntV 7))),
    \<lparr>method_t = Sum, ArgType = Args, ReplyType = PtrTo IntT, numCalls = 1\<rparr>)"
  by (simp add: call_def Sum_def Sum_body_def int64_def)

lemma sumCalled_reachable:
  "(handleRequest fmtD 0)\<^sup>*\<^sup>* (handleRequest_init [] sumRequest) sumCalled"
proof -
  let ?s0 = "handleRequest_init [] sumRequest"
  let ?s1 = "?s0\<lparr>worker_h := W_called None,
                 req_h := (req_h ?s0)\<lparr>replyv_q := Some (PtrTo IntT, PtrV (Some (IntV 7))),
                   mType_q := Some \<lparr>method_t = Sum, ArgType = Args, ReplyType = PtrTo IntT, numCalls = 1\<rparr>\<rparr>\<rparr>"
  have a: "handleRequest fmtD 0 ?s0 ?s1"
    by (rule handleRequest.worker_call [where svc = fooService and argv = "(Args, StructV [(''Num1'', IntV 3), (''Num2'', IntV 4)])"
        and replyv = "(PtrTo IntT, PtrV (Some (IntV 0)))"
        and m = "\<lparr>method_t = Sum, ArgType = Args, ReplyType = PtrTo IntT, numCalls = 0\<rparr>"])
       (simp_all add: handleRequest_init_def sumRequest_def call_sum)
  have "handleRequest fmtD 0 ?s1
      (?s1\<lparr>worker_h := (case None of None \<Rightarrow> W_return | Some e \<Rightarrow> W_error e), handler_h := H_sent\<rparr>)"
    by (rule handleRequest.meet_called) (simp_all add: handleRequest_init_def)
  moreover have "?s1\<lparr>worker_h := (case None of None \<Rightarrow> W_return | Some e \<Rightarrow> W_error e), handler_h := H_sent\<rparr>
      = sumCalled"
    by (simp add: sumCalled_def handleRequest_init_def)
  ultimately have b: "handleRequest fmtD 0 ?s1 sumCalled" by simp
  from a b show ?thesis by (meson rtranclp.rtrancl_into_rtrancl rtranclp.rtrancl_refl)
qed

theorem handleRequest_nil_error_sends_no_reply_witness:
  "Register (\<lambda>n. False) NewServer foo = Ok (None, fooServer)
   \<and> serveCodec_turn fooServer [] (Inr \<lparr>ServiceMethod = ''Foo.Sum'', Seq = 1, Error = []\<rparr>)
        (Inr (StructV [(''Num1'', IntV 3), (''Num2'', IntV 4)])) = Ok (Dispatch sumRequest)
   \<and> (handleRequest (\<lambda>d. ''0s'') 0)\<^sup>*\<^sup>* (handleRequest_init [] sumRequest) sumCalled
   \<and> replyv_q (req_h sumCalled) = Some (PtrTo IntT, PtrV (Some (IntV 7)))
   \<and> wire_h sumCalled = []
   \<and> handler_h sumCalled = H_sent
   \<and> \<not> (\<exists>s'. handleRequest (\<lambda>d. ''0s'') 0 sumCalled s')"
proof -
  have 1: "svc_q sumRequest = Some fooService"
    and 2: "mType_q sumRequest = Some \<lparr>method_t = Sum, ArgType = Args, ReplyType = PtrTo IntT, numCalls = 0\<rparr>"
    and 3: "argv_q sumRequest = Some (Args, StructV [(''Num1'', IntV 3), (''Num2'', IntV 4)])"
    and 4: "replyv_q sumRequest = Some (PtrTo IntT, PtrV (Some (IntV 0)))"
    by (simp_all add: sumRequest_def)
  have 5: "fst (call fooService \<lparr>method_t = Sum, ArgType = Args, ReplyType = PtrTo IntT, numCalls = 0\<rparr>
     (Args, StructV [(''Num1'', IntV 3), (''Num2'', IntV 4)]) (PtrTo IntT, PtrV (Some (IntV 0)))) = None"
    by (simp add: call_sum)
  have 6: "(handleRequest (\<lambda>d. ''0s'') 0)\<^sup>*\<^sup>* (handleRequest_init [] sumRequest) sumCalled"
    by (rule sumCalled_reachable)
  have 7: "handler_h sumCalled = H_sent" "wire_h sumCalled = []"
    "replyv_q (req_h sumCalled) = Some (PtrTo IntT, PtrV (Some (IntV 7)))"
    by (simp_all add: sumCalled_def)
  show ?thesis
    using handleRequest_nil_error_sends_no_reply [OF 1 2 3 4 5 6] Register_foo readRequest_sum 6 7
    by simp
qed

section \<open>Options and dialing\<close>

lemma parseOptions_cases:
  "parseOptions hp opts =
     (if opts = [] \<or> hd opts = None then (Inr DefaultOption, hp)
      else if 1 < length opts then (Inl ''number of options is more than one'', hp)
      else (Inr (the (hd opts)),
            hp(the (hd opts) := (hp (the (hd opts)))
                 \<lparr>MagicNumber_o := MagicNumber_o (hp DefaultOption),
                  CodeType := (if CodeType (hp (the (hd opts))) = [] then CodeType (hp DefaultOption)
                               else CodeType (hp (the (hd opts))))\<rparr>)))"
  by (cases opts; cases "hd opts") (auto simp: parseOptions_def Let_def fun_upd_def fun_eq_iff)

text \<open>
  Claim C10 as stated fails once the magic number of \<^verbatim>\<open>DefaultOption\<close> has been
  assigned to: \<^verbatim>\<open>parseOptions\<close> without arguments returns the default itself, a
  client built by \<^verbatim>\<open>Dial\<close> writes it to the connection, and \<^verbatim>\<open>ServeConn\<close>
  rejects it for its magic number.
\<close>

theorem parseOptions_default_counterexample:
  "parseOptions heapM [] = (Inr DefaultOption, heapM)
   \<and> MagicNumber_o (heapM DefaultOption) \<noteq> MagicNumber
   \<and> Dial (\<lambda>d. ''10s'') None heapM (Inr conn0) False [] =
        (Inr (NewClientCodec DefaultOption), heapM,
         Some \<lparr>closed_n = False, written_n = [heapM DefaultOption]\<rparr>)
   \<and> ServeConn (Inr (heapM DefaultOption)) = Inl MagicMismatch"
  by (simp add: parseOptions_def Dial_def dialTimeout_def NewClient_def heapM_def conn0_def
      DefaultOption_value_def MagicNumber_def ServeConn_def NewCodecFuncMap_def closeOnError_def
      Second_def GobType_def)

text \<open>
  Claim C10, amended. Every option that \<^verbatim>\<open>parseOptions\<close> returns carries the magic
  number that the cell of \<^verbatim>\<open>DefaultOption\<close> holds at the time of the call, and
  \<^verbatim>\<open>ServeConn\<close> rejects it for its magic number exactly when that number is not the
  protocol's. Without arguments, or with a first argument \<^verbatim>\<open>nil\<close>, the option is the
  default itself and nothing changes; otherwise there is one argument, the option is
  that pointer, and its cell has its magic number overwritten in place by the default's
  and an empty codec replaced by the default's. The option that a client built by
  \<^verbatim>\<open>Dial\<close> has written to a fresh connection is that option. \<^verbatim>\<open>DefaultOption\<close> is
  declared with the protocol's magic number, and while its cell holds that number no
  option returned is rejected for its magic number.
\<close>

theorem parseOptions_magic:
  assumes "parseOptions hp opts = (Inr p, hp')"
  shows "MagicNumber_o (hp' p) = MagicNumber_o (hp DefaultOption)
       \<and> (ServeConn (Inr (hp' p)) = Inl MagicMismatch) = (MagicNumber_o (hp DefaultOption) \<noteq> MagicNumber)
       \<and> (opts = [] \<or> hd opts = None \<longrightarrow> p = DefaultOption \<and> hp' = hp)
       \<and> (opts \<noteq> [] \<and> hd opts = Some q \<longrightarrow> opts = [Some q] \<and> p = q
            \<and> hp' = hp(q := (hp q)\<lparr>MagicNumber_o := MagicNumber_o (hp DefaultOption),
                                 CodeType := (if CodeType (hp q) = [] then CodeType (hp DefaultOption)
                                              else CodeType (hp q))\<rparr>))
       \<and> (Dial fmtD enc hp (Inr \<lparr>closed_n = False, written_n = []\<rparr>) timer opts = (Inr c, hp'', Some conn)
            \<longrightarrow> hp'' = hp' \<and> written_n conn = [hp' p]
              \<and> (ServeConn (Inr (hd (written_n conn))) = Inl MagicMismatch) =
                  (MagicNumber_o (hp DefaultOption) \<noteq> MagicNumber))
       \<and> MagicNumber_o DefaultOption_value = MagicNumber
       \<and> (MagicNumber_o (hp DefaultOption) = MagicNumber_o DefaultOption_value \<longrightarrow>
            MagicNumber_o (hp' p) = MagicNumber \<and> ServeConn (Inr (hp' p)) \<noteq> Inl MagicMismatch)"
proof -
  have m: "MagicNumber_o (hp' p) = MagicNumber_o (hp DefaultOption)"
    using assms unfolding parseOptions_cases by (auto split: if_splits)
  have s: "(ServeConn (Inr (hp' p)) = Inl MagicMismatch) = (MagicNumber_o (hp DefaultOption) \<noteq> MagicNumber)"
    using m by (simp add: ServeConn_def split: option.splits)
  have e: "opts = [] \<or> hd opts = None \<longrightarrow> p = DefaultOption \<and> hp' = hp"
    using assms unfolding parseOptions_cases by (auto split: if_splits)
  have q: "opts \<noteq> [] \<and> hd opts = Some q \<longrightarrow> opts = [Some q] \<and> p = q
            \<and> hp' = hp(q := (hp q)\<lparr>MagicNumber_o := MagicNumber_o (hp DefaultOption),
                                 CodeType := (if CodeType (hp q) = [] then CodeType (hp DefaultOption)
                                              else CodeType (hp q))\<rparr>)"
  proof (intro impI)
    assume h: "opts \<noteq> [] \<and> hd opts = Some q"
    then have l: "\<not> 1 < length opts"
      using assms unfolding parseOptions_cases by (auto split: if_splits)
    then have o: "opts = [Some q]" using h by (cases opts) auto
    show "opts = [Some q] \<and> p = q
            \<and> hp' = hp(q := (hp q)\<lparr>MagicNumber_o := MagicNumber_o (hp DefaultOption),
                                 CodeType := (if CodeType (hp q) = [] then CodeType (hp DefaultOption)
                                              else CodeType (hp q))\<rparr>)"
      using assms o unfolding parseOptions_cases by auto
  qed
  have w: "Dial fmtD enc hp (Inr \<lparr>closed_n = False, written_n = []\<rparr>) timer opts = (Inr c, hp'', Some conn)
            \<longrightarrow> hp'' = hp' \<and> written_n conn = [hp' p]
              \<and> (ServeConn (Inr (hd (written_n conn))) = Inl MagicMismatch) =
                  (MagicNumber_o (hp DefaultOption) \<noteq> MagicNumber)"
    using assms s
    by (auto simp: Dial_def dialTimeout_def NewClient_def closeOnError_def
             split: if_splits option.splits)
  have d: "MagicNumber_o DefaultOption_value = MagicNumber"
    by (simp add: DefaultOption_value_def)
  have k: "MagicNumber_o (hp DefaultOption) = MagicNumber_o DefaultOption_value \<longrightarrow>
            MagicNumber_o (hp' p) = MagicNumber \<and> ServeConn (Inr (hp' p)) \<noteq> Inl MagicMismatch"
    using m s d by simp
  from m s e q w d k show ?thesis by blast
qed

theorem parseOptions_magic_witness:
  "MagicNumber_o (heapA optA) = 42 \<and> CodeType (heapA optA) = []
   \<and> MagicNumber_o (heapA DefaultOption) = MagicNumber_o DefaultOption_value
   \<and> parseOptions heapA [Some optA] = (Inr optA, heapA(optA := optA'))
   \<and> Dial (\<lambda>d. ''100ms'') None heapA (Inr conn0) False [Some optA] =
        (Inr (NewClientCodec optA), heapA(optA := optA'), Some \<lparr>closed_n = False, written_n = [optA']\<rparr>)
   \<and> MagicNumber_o optA' = MagicNumber
   \<and> ServeConn (Inr optA') \<noteq> Inl MagicMismatch
   \<and> parseOptions heapM [None] = (Inr DefaultOption, heapM)
   \<and> ServeConn (Inr (heapM DefaultOption)) = Inl MagicMismatch"
proof -
  have 1: "MagicNumber_o (heapA DefaultOption) = MagicNumber_o DefaultOption_value"
    by (simp add: heapA_def optA_def DefaultOption_def)
  have 2: "parseOptions heapA [Some optA] = (Inr optA, heapA(optA := optA'))"
    by (simp add: parseOptions_def Let_def heapA_def optA_def optA'_def DefaultOption_def
          DefaultOption_value_def)
  have 3: "Dial (\<lambda>d. ''100ms'') None heapA (Inr \<lparr>closed_n = False, written_n = []\<rparr>) False [Some optA] =
        (Inr (NewClientCodec optA), heapA(optA := optA'), Some \<lparr>closed_n = False, written_n = [optA']\<rparr>)"
    by (simp add: Dial_def dialTimeout_def 2 NewClient_def optA'_def NewCodecFuncMap_def closeOnError_def)
  have 4: "MagicNumber_o (heapA optA) = 42 \<and> CodeType (heapA optA) = []"
    by (simp add: heapA_def)
  have 5: "parseOptions heapM [None] = (Inr DefaultOption, heapM)"
    by (simp add: parseOptions_def)
  have 6: "MagicNumber_o (heapM DefaultOption) \<noteq> MagicNumber"
    by (simp add: heapM_def MagicNumber_def)
  show ?thesis
    using parseOptions_magic [OF 2, of optA "\<lambda>d. ''100ms''" None False "NewClientCodec optA"
        "heapA(optA := optA')" "\<lparr>closed_n = False, written_n = [optA']\<rparr>"]
      parseOptions_magic [OF 5, of DefaultOption "\<lambda>d. ''10s''" None False
        "NewClientCodec DefaultOption" heapM "\<lparr>closed_n = False, written_n = [heapM DefaultOption]\<rparr>"]
      1 2 3 4 5 6
    by (simp add: conn0_def)
qed

lemma parseOptions_heapA: "parseOptions heapA [Some optA] = (Inr optA, heapA(optA := optA'))"
  by (simp add: parseOptions_def Let_def heapA_def optA_def optA'_def DefaultOption_def
          DefaultOption_value_def)

text \<open>
  Claim C3 as stated fails where the address cannot be reached: the error of the
  transport's dialer comes back as it is, and the text Go's dialer gives for a dial
  that times out does not contain \<^verbatim>\<open>connect timeout\<close>.
\<close>

theorem dialTimeout_counterexample:
  "ConnectTimeout (heapA optA) = 100 * 1000000
   \<and> dialTimeout (\<lambda>d. ''100ms'') (NewClient None) heapA
        (Inl ''dial tcp 10.255.255.1:9999: i/o timeout'') True [Some optA] =
      (Inl ''dial tcp 10.255.255.1:9999: i/o timeout'', heapA(optA := optA'), None)
   \<and> \<not> sublist ''connect timeout'' ''dial tcp 10.255.255.1:9999: i/o timeout''"
  by (simp add: dialTimeout_def parseOptions_heapA sublist_Cons_right) (simp add: heapA_def)

text \<open>
  Claim C3, amended. When the transport's dial fails, \<^verbatim>\<open>dialTimeout\<close> returns the
  dialer's error unchanged and no connection exists. When the dial succeeds, the
  connect timeout is not zero and the timer fires before the construction of the
  client has delivered its result, \<^verbatim>\<open>dialTimeout\<close> closes the connection and returns
  the error \<^verbatim>\<open>rpc client: connect timeout: expect within\<close> followed by the timeout.
\<close>

theorem dialTimeout_timer:
  assumes "parseOptions hp opts = (Inr p, hp')"
  shows "dialTimeout fmtD f hp (Inl e) timer opts = (Inl e, hp', None)
       \<and> (ConnectTimeout (hp' p) \<noteq> 0 \<longrightarrow>
            dialTimeout fmtD f hp (Inr conn) True opts =
              (Inl (''rpc client: connect timeout: expect within '' @ fmtD (ConnectTimeout (hp' p))),
               hp', Some (conn\<lparr>closed_n := True\<rparr>))
            \<and> sublist ''connect timeout''
                 (''rpc client: connect timeout: expect within '' @ fmtD (ConnectTimeout (hp' p))))"
proof -
  have "''rpc client: connect timeout: expect within '' @ x =
      ''rpc client: '' @ ''connect timeout'' @ ('': expect within '' @ x)" for x
    by simp
  then have "sublist ''connect timeout'' (''rpc client: connect timeout: expect within '' @ x)" for x
    unfolding sublist_def by blast
  then show ?thesis
    using assms by (simp add: dialTimeout_def connectTimeoutText_def)
qed

theorem dialTimeout_timer_witness:
  "dialTimeout (\<lambda>d. ''100ms'') (NewClient None) heapA
        (Inl ''dial tcp 10.255.255.1:9999: i/o timeout'') True [Some optA] =
      (Inl ''dial tcp 10.255.255.1:9999: i/o timeout'', heapA(optA := optA'), None)
   \<and> ConnectTimeout ((heapA(optA := optA')) optA) = 100000000
   \<and> dialTimeout (\<lambda>d. ''100ms'') (NewClient None) heapA (Inr conn0) True [Some optA] =
      (Inl ''rpc client: connect timeout: expect within 100ms'', heapA(optA := optA'),
       Some \<lparr>closed_n = True, written_n = []\<rparr>)
   \<and> sublist ''connect timeout'' ''rpc client: connect timeout: expect within 100ms''"
proof -
  have c: "ConnectTimeout ((heapA(optA := optA')) optA) \<noteq> 0" by (simp add: optA'_def)
  show ?thesis
    using dialTimeout_timer [OF parseOptions_heapA, of "\<lambda>d. ''100ms''" "NewClient None"
        "''dial tcp 10.255.255.1:9999: i/o timeout''" True conn0] c
    by (simp add: conn0_def optA'_def)
qed

section \<open>Round robin\<close>

lemma smod_nonneg: "0 \<le> (a::int) \<Longrightarrow> 0 < n \<Longrightarrow> a smod n = a mod n"
  by (cases "a = 0") (simp_all add: smod_int_alt_def)

lemma Get_RoundRobin:
  assumes "servers_d d \<noteq> []" "0 \<le> index_d d"
  shows "Get d RoundRobinSelect =
    (Ok (servers_d d ! (nat (index_d d) mod length (servers_d d))),
     d\<lparr>index_d := (index_d d + 1) mod int (length (servers_d d))\<rparr>)"
proof -
  let ?n = "int (length (servers_d d))"
  have n: "0 < ?n" using assms by simp
  have 1: "index_d d smod ?n = index_d d mod ?n" using assms n by (simp add: smod_nonneg)
  have 2: "(index_d d + 1) smod ?n = (index_d d + 1) mod ?n" using assms n by (simp add: smod_nonneg)
  have 3: "nat (index_d d mod ?n) = nat (index_d d) mod length (servers_d d)"
    using assms by (simp add: nat_mod_distrib)
  have 4: "\<not> index_d d mod ?n < 0" using n by (simp add: not_less)
  show ?thesis
    unfolding Get_def Let_def 1 2 using n 3 4 by (simp add: RandomSelect_def RoundRobinSelect_def)
qed

lemma Gets_RoundRobin:
  assumes "servers_d d \<noteq> []" "0 \<le> index_d d"
  shows "Gets d (replicate k RoundRobinSelect) =
     (map (\<lambda>j. Ok (servers_d d ! ((nat (index_d d) + j) mod length (servers_d d)))) [0..<k],
      d\<lparr>index_d := (if k = 0 then index_d d else (index_d d + int k) mod int (length (servers_d d)))\<rparr>)"
  using assms
proof (induction k arbitrary: d)
  case 0
  show ?case by simp
next
  case (Suc k)
  let ?n = "length (servers_d d)"
  let ?d = "d\<lparr>index_d := (index_d d + 1) mod int ?n\<rparr>"
  have n: "0 < ?n" using Suc.prems by simp
  have g: "Get d RoundRobinSelect = (Ok (servers_d d ! (nat (index_d d) mod ?n)), ?d)"
    using Suc.prems by (rule Get_RoundRobin)
  have p: "servers_d ?d \<noteq> []" "0 \<le> index_d ?d" using Suc.prems n by simp_all
  have ix: "nat (index_d ?d) = Suc (nat (index_d d)) mod ?n"
    using Suc.prems n by (simp add: nat_mod_distrib nat_add_distrib)
  have sh: "(Suc (nat (index_d d)) mod ?n + j) mod ?n = Suc (nat (index_d d) + j) mod ?n" for j
    using mod_add_left_eq [of "Suc (nat (index_d d))" ?n j] by simp
  have cur: "(if k = 0 then index_d ?d else (index_d ?d + int k) mod int (length (servers_d ?d)))
      = (index_d d + int (Suc k)) mod int ?n"
  proof -
    have "((index_d d + 1) mod int ?n + int k) mod int ?n = (index_d d + 1 + int k) mod int ?n"
      by (rule mod_add_left_eq)
    then show ?thesis by (simp add: add.assoc)
  qed
  have ih: "Gets ?d (replicate k RoundRobinSelect) =
     (map (\<lambda>j. Ok (servers_d d ! (Suc (nat (index_d d) + j) mod ?n))) [0..<k],
      d\<lparr>index_d := (index_d d + int (Suc k)) mod int ?n\<rparr>)"
    unfolding Suc.IH [OF p] cur ix by (simp add: sh)
  have "map (\<lambda>j. Ok (servers_d d ! ((nat (index_d d) + j) mod ?n))) [0..<Suc k]
      = map (\<lambda>j. Ok (servers_d d ! ((nat (index_d d) + j) mod ?n))) (0 # map Suc [0..<k])"
    by (simp add: upt_conv_Cons map_Suc_upt del: upt_Suc)
  then show ?case
    by (simp add: g ih comp_def del: upt_Suc)
qed

lemma rotate_as_map:
  assumes "xs \<noteq> []"
  shows "rotate m xs = map (\<lambda>j. xs ! ((m + j) mod length xs)) [0..<length xs]"
  by (rule nth_equalityI) (simp_all add: nth_rotate)

lemma mset_rotate_eq: "mset (rotate m xs) = mset xs"
proof -
  have "mset (rotate m xs) = mset (drop (m mod length xs) xs) + mset (take (m mod length xs) xs)"
    by (simp add: rotate_drop_take)
  also have "\<dots> = mset (take (m mod length xs) xs @ drop (m mod length xs) xs)"
    by (simp only: mset_append add.commute)
  finally show ?thesis by simp
qed

text \<open>
  Claim C8. On a list of \<open>n > 0\<close> servers that is not updated, with the cursor at or
  above zero (where \<^verbatim>\<open>NewMultiServerDiscovery\<close> puts it), \<open>n\<close> consecutive calls of
  \<^verbatim>\<open>Get(RoundRobinSelect)\<close> return the list rotated by the cursor, so each position
  once; the \<open>j\<close>-th call returns the entry at cursor plus \<open>j\<close> modulo \<open>n\<close>, the call
  \<open>n\<close> places later returns the same entry, and each call leaves the cursor at its
  successor modulo \<open>n\<close>.
\<close>

theorem RoundRobinSelect_period:
  assumes "servers_d d \<noteq> []" and "0 \<le> index_d d"
  shows "fst (Gets d (replicate (length (servers_d d)) RoundRobinSelect)) =
           map Ok (rotate (nat (index_d d)) (servers_d d))
       \<and> mset (fst (Gets d (replicate (length (servers_d d)) RoundRobinSelect))) =
           mset (map Ok (servers_d d))
       \<and> (j < k \<longrightarrow> fst (Gets d (replicate k RoundRobinSelect)) ! j =
             Ok (servers_d d ! ((nat (index_d d) + j) mod length (servers_d d))))
       \<and> (j + length (servers_d d) < k \<longrightarrow>
             fst (Gets d (replicate k RoundRobinSelect)) ! (j + length (servers_d d)) =
             fst (Gets d (replicate k RoundRobinSelect)) ! j)
       \<and> index_d (snd (Get d RoundRobinSelect)) = (index_d d + 1) mod int (length (servers_d d))
       \<and> 0 \<le> index_d (NewMultiServerDiscovery ss g)
       \<and> index_d (NewMultiServerDiscovery ss g) < MaxInt32 - 1"
proof -
  let ?n = "length (servers_d d)"
  let ?i = "nat (index_d d)"
  have all: "fst (Gets d (replicate k RoundRobinSelect)) =
      map (\<lambda>j. Ok (servers_d d ! ((?i + j) mod ?n))) [0..<k]" for k
    by (simp add: Gets_RoundRobin [OF assms])
  have 1: "fst (Gets d (replicate ?n RoundRobinSelect)) = map Ok (rotate ?i (servers_d d))"
    unfolding all rotate_as_map [OF assms(1)] by simp
  have 2: "mset (fst (Gets d (replicate ?n RoundRobinSelect))) = mset (map Ok (servers_d d))"
    unfolding 1 by (simp add: mset_rotate_eq)
  have 3: "j < k \<longrightarrow> fst (Gets d (replicate k RoundRobinSelect)) ! j =
             Ok (servers_d d ! ((?i + j) mod ?n))"
    unfolding all by simp
  have 4: "j + ?n < k \<longrightarrow>
             fst (Gets d (replicate k RoundRobinSelect)) ! (j + ?n) =
             fst (Gets d (replicate k RoundRobinSelect)) ! j"
    unfolding all by (simp add: add.assoc [symmetric])
  have 5: "index_d (snd (Get d RoundRobinSelect)) = (index_d d + 1) mod int ?n"
    by (simp add: Get_RoundRobin [OF assms])
  have 6: "0 \<le> index_d (NewMultiServerDiscovery ss g)
       \<and> index_d (NewMultiServerDiscovery ss g) < MaxInt32 - 1"
    by (cases g) (simp_all add: NewMultiServerDiscovery_def Intn_def MaxInt32_def)
  from 1 2 3 4 5 6 show ?thesis by blast
qed

theorem RoundRobinSelect_period_witness:
  "servers_d abc = [''a'', ''b'', ''c''] \<and> index_d abc = 7
   \<and> fst (Gets abc (replicate (length (servers_d abc)) RoundRobinSelect)) = [Ok ''b'', Ok ''c'', Ok ''a'']
   \<and> fst (Gets abc (replicate 7 RoundRobinSelect)) ! 5 = fst (Gets abc (replicate 7 RoundRobinSelect)) ! 2
   \<and> index_d (snd (Get abc RoundRobinSelect)) = 2"
proof -
  have s: "servers_d abc = [''a'', ''b'', ''c'']" and i: "index_d abc = 7"
    by (simp_all add: abc_def NewMultiServerDiscovery_def Intn_def MaxInt32_def)
  have 1: "servers_d abc \<noteq> []" and 2: "0 \<le> index_d abc" by (simp_all add: s i)
  have r: "rotate 7 [''a'', ''b'', ''c''] = [''b'', ''c'', ''a'']"
    by (simp add: rotate_def eval_nat_numeral rotate1_def)
  show ?thesis
    using RoundRobinSelect_period [OF 1 2, of 2 7] s i
    by (simp add: r)
qed

section \<open>The registry\<close>

lemma aliveLoop_fst:
  "fst (aliveLoop t now es acc m) = acc @ map fst (filter (\<lambda>(a, s). alive t s (now a)) es)"
  by (induction es arbitrary: acc m) auto

lemma aliveLoop_snd:
  "snd (aliveLoop t now es acc m) =
     filter (\<lambda>(a, s'). \<not> (\<exists>s. (a, s) \<in> set es \<and> \<not> alive t s (now a))) m"
proof (induction es arbitrary: acc m)
  case Nil
  show ?case by simp
next
  case (Cons e es)
  obtain addr s where e: "e = (addr, s)" by (cases e)
  show ?case
    unfolding e by (auto simp: Cons.IH AList.delete_eq intro!: filter_cong)
qed

lemma distinct_keys_unique:
  "distinct (map fst es) \<Longrightarrow> (a, s) \<in> set es \<Longrightarrow> (a, s') \<in> set es \<Longrightarrow> s = s'"
  by (meson eq_key_imp_eq_value)

lemma aliveLoop_snd_self:
  assumes "distinct (map fst es)"
  shows "snd (aliveLoop t now es acc es) = filter (\<lambda>(a, s). alive t s (now a)) es"
  unfolding aliveLoop_snd using assms
  by (auto intro!: filter_cong dest: distinct_keys_unique)

lemma aliveServers_eq:
  assumes "distinct (map fst (servers r))"
  shows "aliveServers r now =
     (sort (map fst (filter (\<lambda>(a, s). alive (timeout r) s (now a)) (servers r))),
      r\<lparr>servers := filter (\<lambda>(a, s). alive (timeout r) s (now a)) (servers r)\<rparr>)"
proof -
  obtain acc m where l: "aliveLoop (timeout r) now (servers r) [] (servers r) = (acc, m)"
    by (cases "aliveLoop (timeout r) now (servers r) [] (servers r)")
  have "acc = map fst (filter (\<lambda>(a, s). alive (timeout r) s (now a)) (servers r))"
    using aliveLoop_fst [of "timeout r" now "servers r" "[]" "servers r"] l by simp
  moreover have "m = filter (\<lambda>(a, s). alive (timeout r) s (now a)) (servers r)"
    using aliveLoop_snd_self [OF assms, of "timeout r" now "[]"] l by simp
  ultimately show ?thesis
    by (simp add: aliveServers_def l)
qed

lemma alive_iff: "alive t s now = (t = 0 \<or> now - start s < t)"
  by (auto simp: alive_def Add_def After_def)

lemma distinct_filter_keys:
  "distinct (map fst es) \<Longrightarrow> distinct (map fst (filter P es))"
  by (simp add: distinct_map_filter)

lemma putServer_distinct:
  "distinct (map fst (servers r)) \<Longrightarrow> distinct (map fst (servers (putServer r addr t)))"
  by (auto simp: putServer_def distinct_update split: option.splits)

lemma putServer_lookup:
  "map_of (servers (putServer r addr t)) a =
     (if a = addr then
        Some (case map_of (servers r) addr of None \<Rightarrow> \<lparr>Addr = addr, start = t\<rparr> | Some s \<Rightarrow> s\<lparr>start := t\<rparr>)
      else map_of (servers r) a)"
  by (auto simp: putServer_def update_conv' split: option.splits)

lemmas registry_eval =
  ServeHTTP_def New_def writer0_def postRequest_def getRequest_def Header_Get_def Header_Set_def
  putServer_def aliveServers_def alive_def Add_def After_def Let_def WriteHeader_def
  StatusInternalServerError_def StatusMethodNotAllowed_def itemA_def

text \<open>
  Claim C2 as stated fails at the boundary: an address posted at time 0 to a registry
  with timeout 5 is gone from the answer to a GET at time 5, and from the map.
\<close>

theorem alive_boundary_counterexample:
  "fst (ServeHTTP (New 5) writer0 (postRequest ''A'') (\<lambda>a. 0)) = \<lparr>timeout = 5, servers = [(''A'', itemA)]\<rparr>
   \<and> (5::int) - start itemA \<le> 5
   \<and> ServeHTTP \<lparr>timeout = 5, servers = [(''A'', itemA)]\<rparr> writer0 getRequest (\<lambda>a. 0 + 5) =
       (\<lparr>timeout = 5, servers = []\<rparr>, \<lparr>wheader = [''X-GPMD-SERVERS'' \<mapsto> [[]]], status = None\<rparr>)"
  by (simp add: registry_eval)

text \<open>
  Claim C2, amended. An entry is reported alive if and only if the timeout is zero or
  the time since its last heartbeat is strictly less than the timeout; so an address
  posted at \<open>t\<close> is in the answer to a GET at any time before \<open>t + timeout\<close>, and from
  \<open>t + timeout\<close> on (the boundary included) it is absent, unless the timeout is zero.
\<close>

theorem alive_iff_elapsed_less:
  assumes "distinct (map fst (servers r))"
  shows "((addr, s) \<in> set (servers r) \<longrightarrow>
           (addr \<in> set (fst (aliveServers r now))) = (timeout r = 0 \<or> now addr - start s < timeout r))
       \<and> (addr \<in> set (fst (aliveServers (putServer r addr t) now))) =
           (timeout r = 0 \<or> now addr < t + timeout r)"
proof (intro conjI impI)
  assume mem: "(addr, s) \<in> set (servers r)"
  show "(addr \<in> set (fst (aliveServers r now))) = (timeout r = 0 \<or> now addr - start s < timeout r)"
    using mem assms
    by (force simp: aliveServers_eq [OF assms] alive_iff dest: distinct_keys_unique)
next
  let ?r = "putServer r addr t"
  have d: "distinct (map fst (servers ?r))" using assms by (rule putServer_distinct)
  have to: "timeout ?r = timeout r" by (simp add: putServer_def split: option.splits)
  obtain s' where s': "map_of (servers ?r) addr = Some s'" "start s' = t"
    by (auto simp: putServer_lookup split: option.splits)
  then have mem: "(addr, s') \<in> set (servers ?r)" by (simp add: map_of_SomeD)
  have "(addr \<in> set (fst (aliveServers ?r now))) = (timeout ?r = 0 \<or> now addr - start s' < timeout ?r)"
    using mem d
    by (force simp: aliveServers_eq [OF d] alive_iff dest: distinct_keys_unique)
  then show "(addr \<in> set (fst (aliveServers ?r now))) = (timeout r = 0 \<or> now addr < t + timeout r)"
    using s' to by auto
qed

theorem alive_iff_elapsed_less_witness:
  "(''A'', itemA) \<in> set (servers \<lparr>timeout = 5, servers = [(''A'', itemA)]\<rparr>)
   \<and> ''A'' \<in> set (fst (aliveServers \<lparr>timeout = 5, servers = [(''A'', itemA)]\<rparr> (\<lambda>a. 4)))
   \<and> ''A'' \<notin> set (fst (aliveServers \<lparr>timeout = 5, servers = [(''A'', itemA)]\<rparr> (\<lambda>a. 5)))
   \<and> ''A'' \<in> set (fst (aliveServers \<lparr>timeout = 0, servers = [(''A'', itemA)]\<rparr> (\<lambda>a. 5)))
   \<and> ''A'' \<in> set (fst (aliveServers (putServer (New 5) ''A'' 10) (\<lambda>a. 14)))
   \<and> ''A'' \<notin> set (fst (aliveServers (putServer (New 5) ''A'' 10) (\<lambda>a. 15)))"
proof -
  have d: "distinct (map fst (servers \<lparr>timeout = t, servers = [(''A'', itemA)]\<rparr>))" for t by simp
  have e: "distinct (map fst (servers (New 5)))" by (simp add: New_def)
  show ?thesis
    using alive_iff_elapsed_less [OF d, of "''A''" itemA 5 "\<lambda>a. 4"]
      alive_iff_elapsed_less [OF d, of "''A''" itemA 5 "\<lambda>a. 5"]
      alive_iff_elapsed_less [OF d, of "''A''" itemA 0 "\<lambda>a. 5"]
      alive_iff_elapsed_less [OF e, of "''A''" _ "\<lambda>a. 14" 10]
      alive_iff_elapsed_less [OF e, of "''A''" _ "\<lambda>a. 15" 10]
    by (simp add: itemA_def New_def)
qed

text \<open>
  Claim C6 as stated fails at the boundary, where \<^emph>\<open>currently alive\<close> reads as in
  claim C2, the time since the last heartbeat being at most the timeout: at time 5 the
  entry of \<open>A\<close>, posted at 0 under a timeout of 5, is left out of the header and removed
  from the map.
\<close>

theorem ServeHTTP_GET_boundary_counterexample:
  "(''A'', itemA) \<in> set (servers registry3)
   \<and> (5::int) - start itemA \<le> timeout registry3
   \<and> ServeHTTP registry3 writer0 getRequest (\<lambda>a. 5) =
       (\<lparr>timeout = 5, servers = [(''C'', itemC), (''B'', itemB)]\<rparr>,
        \<lparr>wheader = [''X-GPMD-SERVERS'' \<mapsto> [''B,C'']], status = None\<rparr>)"
  by (simp add: registry3_def itemB_def itemC_def registry_eval)

text \<open>
  Claim C6, amended. A GET sets \<^verbatim>\<open>X-GPMD-SERVERS\<close> to the comma-joined list of
  addresses that is sorted, without repetition, and holds exactly the addresses whose
  entry is younger than the timeout (the time since its last heartbeat strictly less
  than the timeout) or any age when the timeout is zero; the registry keeps exactly
  those entries, unchanged, and every other entry, the one whose age equals the timeout
  included, is removed from the map.
\<close>

theorem ServeHTTP_GET:
  assumes "distinct (map fst (servers r))" and "Method req = ''GET''"
  shows "ServeHTTP r w req now =
           (r\<lparr>servers := filter (\<lambda>(a, s). timeout r = 0 \<or> now a - start s < timeout r) (servers r)\<rparr>,
            w\<lparr>wheader := (wheader w)(''X-GPMD-SERVERS'' \<mapsto> [Join (fst (aliveServers r now)) '','']) \<rparr>)
       \<and> sorted (fst (aliveServers r now))
       \<and> distinct (fst (aliveServers r now))
       \<and> set (fst (aliveServers r now)) =
           {a. \<exists>s. (a, s) \<in> set (servers r) \<and> (timeout r = 0 \<or> now a - start s < timeout r)}
       \<and> (\<forall>a s. (a, s) \<in> set (servers r) \<and> \<not> (timeout r = 0 \<or> now a - start s < timeout r)
             \<longrightarrow> map_of (servers (fst (ServeHTTP r w req now))) a = None)
       \<and> (\<forall>a s. (a, s) \<in> set (servers r) \<and> (timeout r = 0 \<or> now a - start s < timeout r)
             \<longrightarrow> map_of (servers (fst (ServeHTTP r w req now))) a = Some s)"
proof -
  let ?P = "\<lambda>(a, s). timeout r = 0 \<or> now a - start s < timeout r"
  have P: "(\<lambda>(a, s). alive (timeout r) s (now a)) = ?P"
    by (simp add: alive_iff)
  have al: "aliveServers r now = (sort (map fst (filter ?P (servers r))), r\<lparr>servers := filter ?P (servers r)\<rparr>)"
    using aliveServers_eq [OF assms(1), of now] unfolding P .
  have 1: "ServeHTTP r w req now =
           (r\<lparr>servers := filter ?P (servers r)\<rparr>,
            w\<lparr>wheader := (wheader w)(''X-GPMD-SERVERS'' \<mapsto> [Join (fst (aliveServers r now)) '','']) \<rparr>)"
    using assms(2) by (simp add: ServeHTTP_def al Header_Set_def)
  have 2: "sorted (fst (aliveServers r now))" by (simp add: al)
  have 3: "distinct (fst (aliveServers r now))"
    using assms(1) by (simp add: al distinct_map_filter)
  have 4: "set (fst (aliveServers r now)) =
      {a. \<exists>s. (a, s) \<in> set (servers r) \<and> (timeout r = 0 \<or> now a - start s < timeout r)}"
    by (force simp: al)
  have df: "distinct (map fst (filter ?P (servers r)))"
    using assms(1) by (simp add: distinct_map_filter)
  have 5: "map_of (servers (fst (ServeHTTP r w req now))) a = None"
    if "(a, s) \<in> set (servers r) \<and> \<not> (timeout r = 0 \<or> now a - start s < timeout r)" for a s
  proof -
    have "a \<notin> fst ` set (filter ?P (servers r))"
      using that assms(1) by (auto dest: distinct_keys_unique)
    then show ?thesis unfolding 1 by (simp add: map_of_eq_None_iff)
  qed
  have 6: "map_of (servers (fst (ServeHTTP r w req now))) a = Some s"
    if "(a, s) \<in> set (servers r) \<and> (timeout r = 0 \<or> now a - start s < timeout r)" for a s
  proof -
    have "(a, s) \<in> set (filter ?P (servers r))" using that by simp
    then show ?thesis unfolding 1 using df by simp
  qed
  from 1 2 3 4 5 6 show ?thesis by blast
qed

theorem ServeHTTP_GET_witness:
  "distinct (map fst (servers registry3)) \<and> Method getRequest = ''GET''
   \<and> ServeHTTP registry3 writer0 getRequest (\<lambda>a. 4) =
       (registry3, \<lparr>wheader = [''X-GPMD-SERVERS'' \<mapsto> [''A,B,C'']], status = None\<rparr>)
   \<and> ServeHTTP registry3 writer0 getRequest (\<lambda>a. 5) =
       (\<lparr>timeout = 5, servers = [(''C'', itemC), (''B'', itemB)]\<rparr>,
        \<lparr>wheader = [''X-GPMD-SERVERS'' \<mapsto> [''B,C'']], status = None\<rparr>)
   \<and> fst (aliveServers registry3 (\<lambda>a. 5)) = [''B'', ''C'']
   \<and> map_of (servers (fst (ServeHTTP registry3 writer0 getRequest (\<lambda>a. 5)))) ''A'' = None
   \<and> map_of (servers (fst (ServeHTTP registry3 writer0 getRequest (\<lambda>a. 5)))) ''B'' = Some itemB"
proof -
  have 1: "distinct (map fst (servers registry3))" by (simp add: registry3_def)
  have 2: "Method getRequest = ''GET''" by (simp add: getRequest_def)
  have 3: "fst (aliveServers registry3 (\<lambda>a. 5)) = [''B'', ''C'']"
    "fst (aliveServers registry3 (\<lambda>a. 4)) = [''A'', ''B'', ''C'']"
    by (simp_all add: registry3_def itemB_def itemC_def registry_eval)
  have 4: "(''A'', itemA) \<in> set (servers registry3)
      \<and> \<not> (timeout registry3 = 0 \<or> 5 - start itemA < timeout registry3)"
    "(''B'', itemB) \<in> set (servers registry3)
      \<and> (timeout registry3 = 0 \<or> 5 - start itemB < timeout registry3)"
    by (simp_all add: registry3_def itemA_def itemB_def)
  show ?thesis
    using ServeHTTP_GET [OF 1 2, of writer0 "\<lambda>a. 5"] ServeHTTP_GET [OF 1 2, of writer0 "\<lambda>a. 4"]
      1 2 3 4
    by (simp add: registry3_def itemA_def itemB_def itemC_def writer0_def)
qed

text \<open>
  Claim C7. A POST whose \<^verbatim>\<open>X-GPMD-SERVERS\<close> is not empty stores the address: a new
  entry with the current time, or the old entry with its time refreshed, every other
  entry and the timeout as they were, and no status written. A POST without the
  header answers 500 and leaves the registry as it was. Any method other than GET
  and POST answers 405.
\<close>

theorem ServeHTTP_POST_and_other_methods:
  "(Method req = ''POST'' \<and> Header_Get (ReqHeader req) ''X-GPMD-SERVERS'' \<noteq> [] \<longrightarrow>
      ServeHTTP r w req now =
        (putServer r (Header_Get (ReqHeader req) ''X-GPMD-SERVERS'')
           (now (Header_Get (ReqHeader req) ''X-GPMD-SERVERS'')), w)
      \<and> map_of (servers (fst (ServeHTTP r w req now))) (Header_Get (ReqHeader req) ''X-GPMD-SERVERS'') =
          Some (case map_of (servers r) (Header_Get (ReqHeader req) ''X-GPMD-SERVERS'') of
                  None \<Rightarrow> \<lparr>Addr = Header_Get (ReqHeader req) ''X-GPMD-SERVERS'',
                            start = now (Header_Get (ReqHeader req) ''X-GPMD-SERVERS'')\<rparr>
                | Some s \<Rightarrow> s\<lparr>start := now (Header_Get (ReqHeader req) ''X-GPMD-SERVERS'')\<rparr>)
      \<and> (a \<noteq> Header_Get (ReqHeader req) ''X-GPMD-SERVERS'' \<longrightarrow>
           map_of (servers (fst (ServeHTTP r w req now))) a = map_of (servers r) a)
      \<and> timeout (fst (ServeHTTP r w req now)) = timeout r)
   \<and> (Method req = ''POST'' \<and> Header_Get (ReqHeader req) ''X-GPMD-SERVERS'' = [] \<and> status w = None \<longrightarrow>
      ServeHTTP r w req now = (r, w\<lparr>status := Some 500\<rparr>))
   \<and> (Method req \<noteq> ''GET'' \<and> Method req \<noteq> ''POST'' \<and> status w = None \<longrightarrow>
      ServeHTTP r w req now = (r, w\<lparr>status := Some 405\<rparr>))"
proof (intro conjI impI)
  let ?addr = "Header_Get (ReqHeader req) ''X-GPMD-SERVERS''"
  assume h: "Method req = ''POST'' \<and> ?addr \<noteq> []"
  then show 1: "ServeHTTP r w req now = (putServer r ?addr (now ?addr), w)"
    by (simp add: ServeHTTP_def Let_def)
  show "map_of (servers (fst (ServeHTTP r w req now))) ?addr =
          Some (case map_of (servers r) ?addr of
                  None \<Rightarrow> \<lparr>Addr = ?addr, start = now ?addr\<rparr>
                | Some s \<Rightarrow> s\<lparr>start := now ?addr\<rparr>)"
    unfolding 1 by (simp add: putServer_lookup)
  show "timeout (fst (ServeHTTP r w req now)) = timeout r"
    unfolding 1 by (simp add: putServer_def split: option.splits)
  assume "a \<noteq> ?addr"
  then show "map_of (servers (fst (ServeHTTP r w req now))) a = map_of (servers r) a"
    unfolding 1 by (simp add: putServer_lookup)
next
  assume "Method req = ''POST'' \<and> Header_Get (ReqHeader req) ''X-GPMD-SERVERS'' = [] \<and> status w = None"
  then show "ServeHTTP r w req now = (r, w\<lparr>status := Some 500\<rparr>)"
    by (simp add: ServeHTTP_def Let_def WriteHeader_def StatusInternalServerError_def)
next
  assume "Method req \<noteq> ''GET'' \<and> Method req \<noteq> ''POST'' \<and> status w = None"
  then show "ServeHTTP r w req now = (r, w\<lparr>status := Some 405\<rparr>)"
    by (simp add: ServeHTTP_def Let_def WriteHeader_def StatusMethodNotAllowed_def)
qed

theorem ServeHTTP_POST_and_other_methods_witness:
  "ServeHTTP \<lparr>timeout = 5, servers = [(''A'', itemA)]\<rparr> writer0 (postRequest ''A'') (\<lambda>a. 9) =
     (\<lparr>timeout = 5, servers = [(''A'', \<lparr>Addr = ''A'', start = 9\<rparr>)]\<rparr>, writer0)
   \<and> ServeHTTP \<lparr>timeout = 5, servers = [(''A'', itemA)]\<rparr> writer0 (postRequest ''B'') (\<lambda>a. 9) =
     (\<lparr>timeout = 5, servers = [(''A'', itemA), (''B'', \<lparr>Addr = ''B'', start = 9\<rparr>)]\<rparr>, writer0)
   \<and> ServeHTTP \<lparr>timeout = 5, servers = [(''A'', itemA)]\<rparr> writer0
        \<lparr>Method = ''POST'', ReqHeader = Map.empty\<rparr> (\<lambda>a. 9) =
     (\<lparr>timeout = 5, servers = [(''A'', itemA)]\<rparr>, \<lparr>wheader = Map.empty, status = Some 500\<rparr>)
   \<and> ServeHTTP \<lparr>timeout = 5, servers = [(''A'', itemA)]\<rparr> writer0
        \<lparr>Method = ''DELETE'', ReqHeader = [''X-GPMD-SERVERS'' \<mapsto> [''A'']]\<rparr> (\<lambda>a. 9) =
     (\<lparr>timeout = 5, servers = [(''A'', itemA)]\<rparr>, \<lparr>wheader = Map.empty, status = Some 405\<rparr>)"
proof -
  let ?r = "\<lparr>timeout = 5, servers = [(''A'', itemA)]\<rparr>"
  have 1: "Method (postRequest x) = ''POST''" for x by (simp add: postRequest_def)
  have 2: "Header_Get (ReqHeader (postRequest ''A'')) ''X-GPMD-SERVERS'' = ''A''"
    "Header_Get (ReqHeader (postRequest ''B'')) ''X-GPMD-SERVERS'' = ''B''"
    by (simp_all add: postRequest_def Header_Get_def)
  have 3: "Header_Get (ReqHeader \<lparr>Method = ''POST'', ReqHeader = Map.empty\<rparr>) ''X-GPMD-SERVERS'' = []"
    by (simp add: Header_Get_def)
  have 4: "status writer0 = None" by (simp add: writer0_def)
  show ?thesis
    using ServeHTTP_POST_and_other_methods [of "postRequest ''A''" ?r writer0 "\<lambda>a. 9" "''B''"]
      ServeHTTP_POST_and_other_methods [of "postRequest ''B''" ?r writer0 "\<lambda>a. 9" "''A''"]
      ServeHTTP_POST_and_other_methods [of "\<lparr>Method = ''POST'', ReqHeader = Map.empty\<rparr>" ?r writer0 "\<lambda>a. 9"]
      ServeHTTP_POST_and_other_methods
        [of "\<lparr>Method = ''DELETE'', ReqHeader = [''X-GPMD-SERVERS'' \<mapsto> [''A'']]\<rparr>" ?r writer0 "\<lambda>a. 9"]
      1 2 3 4
    by (simp add: putServer_def itemA_def writer0_def)
qed

end
